theory Spec2Isabelle
  imports Main
begin

section \<open>JavaScript strings\<close>

text \<open>
  A JavaScript string is a sequence of UTF-16 code units; a code unit is modelled as a
  natural number. Source literals that are ASCII are written through \<open>str\<close>; the
  literals of the source that contain CJK text are given by their code units.
\<close>

type_synonym jstring = "nat list"

definition str :: "string \<Rightarrow> jstring" where
  "str s = map of_char s"

definition nl :: jstring where
  "nl = [10]"

text \<open>ECMAScript \<open>WhiteSpace\<close> and \<open>LineTerminator\<close> code units, as removed by \<open>String.prototype.trim\<close>.\<close>

definition isWhiteSpace :: "nat \<Rightarrow> bool" where
  "isWhiteSpace c \<longleftrightarrow>
     c = 9 \<or> c = 10 \<or> c = 11 \<or> c = 12 \<or> c = 13 \<or> c = 32 \<or> c = 160 \<or> c = 5760 \<or>
     (8192 \<le> c \<and> c \<le> 8202) \<or> c = 8232 \<or> c = 8233 \<or> c = 8239 \<or> c = 8287 \<or>
     c = 12288 \<or> c = 65279"

definition trim :: "jstring \<Rightarrow> jstring" where
  "trim s = rev (dropWhile isWhiteSpace (rev (dropWhile isWhiteSpace s)))"

text \<open>\<open>Array.prototype.join\<close> on an array of strings.\<close>

fun join :: "jstring \<Rightarrow> jstring list \<Rightarrow> jstring" where
  "join sep [] = []"
| "join sep [x] = x"
| "join sep (x # y # ys) = x @ sep @ join sep (y # ys)"

text \<open>Decimal rendering of an integer, as a template literal renders an integral number.\<close>

fun toStringNat :: "nat \<Rightarrow> jstring" where
  "toStringNat n = (if n < 10 then [48 + n] else toStringNat (n div 10) @ [48 + n mod 10])"

declare toStringNat.simps [simp del]

definition toStringInt :: "int \<Rightarrow> jstring" where
  "toStringInt i = (if i < 0 then 45 # toStringNat (nat (- i)) else toStringNat (nat i))"

text \<open>\<open>s.split(/\r?\n/)\<close>: a line feed, or a carriage return directly followed by one, separates.\<close>

fun splitLines_from :: "jstring \<Rightarrow> jstring \<Rightarrow> jstring list" where
  "splitLines_from cur [] = [rev cur]"
| "splitLines_from cur [c] = (if c = 10 then [rev cur, []] else [rev (c # cur)])"
| "splitLines_from cur (c # d # cs) =
     (if c = 10 then rev cur # splitLines_from [] (d # cs)
      else if c = 13 \<and> d = 10 then rev cur # splitLines_from [] cs
      else splitLines_from (c # cur) (d # cs))"

definition splitLines :: "jstring \<Rightarrow> jstring list" where
  "splitLines text = splitLines_from [] text"

text \<open>\<open>cell.replace(/\|/g, "\\|")\<close>.\<close>

definition escapePipe :: "jstring \<Rightarrow> jstring" where
  "escapePipe cell = concat (map (\<lambda>c. if c = 124 then [92, 124] else [c]) cell)"

text \<open>\<open>s.replace(/"/g, '""')\<close>.\<close>

definition doubleQuotes :: "jstring \<Rightarrow> jstring" where
  "doubleQuotes s = concat (map (\<lambda>c. if c = 34 then [34, 34] else [c]) s)"

section \<open>Tabular data model (types.ts)\<close>

datatype OutputFormat = Markdown | Json | Csv | Raw

text \<open>
  An element of a row array of a spreadsheet: a hole of the array (\<open>sheet_to_json\<close> leaves
  one for a blank cell), or any JavaScript value; \<open>CUndefined\<close> and \<open>CNull\<close> are the two
  values the formatters test for, \<open>CVal s\<close> is any other value, given by its \<open>String()\<close>
  image. \<open>Array.prototype.map\<close> and \<open>forEach\<close> pass over holes, \<open>join\<close> renders them empty.
\<close>

datatype cell = CHole | CUndefined | CNull | CVal jstring

text \<open>
  An element of the row matrix: a hole, the value \<open>undefined\<close> or \<open>null\<close>, or an array of cells.
\<close>

datatype row = RHole | RNullish | RCells "cell list"

record 'c RawSheetData =
  name :: jstring
  headers :: "jstring list"
  rows :: "'c list"
  totalRows :: nat

record 'c RawOutput =
  sheets :: "'c RawSheetData list"

text \<open>
  \<open>JSON.stringify\<close> and the property semantics of JavaScript objects belong to the
  runtime: the json formatters hand it the property assignments they make, in order.
\<close>

record json_lib =
  stringify_rows :: "(jstring \<times> jstring) list list \<Rightarrow> jstring"
  stringify_sheet :: "jstring \<Rightarrow> (jstring \<times> cell) list list \<Rightarrow> jstring"

section \<open>CSV parser (parsers/csv.ts)\<close>

record csv_config =
  delimiter :: "jstring option"
  maxRows :: "int option"
  outputFormat :: "OutputFormat option"

record csv_metadata =
  rowCount :: int
  truncated :: bool

record CSVParseResult =
  content :: jstring
  rawData :: "jstring list RawOutput option"
  metadata :: csv_metadata

text \<open>
  The character loop of \<open>parseCSVLine\<close>: the remaining characters, the fields pushed so
  far, the field being read and the quoting state. A doubled quote inside quotes consumes
  two characters (\<open>i++\<close> in the source).
\<close>

fun parseCSVLine_loop ::
  "jstring \<Rightarrow> jstring \<Rightarrow> jstring list \<Rightarrow> jstring \<Rightarrow> bool \<Rightarrow> jstring list" where
  "parseCSVLine_loop delim [] result current inQuotes = result @ [trim current]"
| "parseCSVLine_loop delim [char] result current inQuotes =
     (if inQuotes then
        (if char = 34 then parseCSVLine_loop delim [] result current False
         else parseCSVLine_loop delim [] result (current @ [char]) True)
      else if char = 34 then parseCSVLine_loop delim [] result current True
      else if [char] = delim then parseCSVLine_loop delim [] (result @ [trim current]) [] False
      else parseCSVLine_loop delim [] result (current @ [char]) False)"
| "parseCSVLine_loop delim (char # nextChar # rest) result current inQuotes =
     (if inQuotes then
        (if char = 34 then
           (if nextChar = 34 then parseCSVLine_loop delim rest result (current @ [34]) True
            else parseCSVLine_loop delim (nextChar # rest) result current False)
         else parseCSVLine_loop delim (nextChar # rest) result (current @ [char]) True)
      else if char = 34 then parseCSVLine_loop delim (nextChar # rest) result current True
      else if [char] = delim then
        parseCSVLine_loop delim (nextChar # rest) (result @ [trim current]) [] False
      else parseCSVLine_loop delim (nextChar # rest) result (current @ [char]) False)"

definition parseCSVLine :: "jstring \<Rightarrow> jstring \<Rightarrow> jstring list" where
  "parseCSVLine line delim = parseCSVLine_loop delim line [] [] False"

definition csv_rowLine :: "jstring list \<Rightarrow> jstring" where
  "csv_rowLine row = str ''| '' @ join (str '' | '') (map escapePipe row) @ str '' |'' @ nl"

definition csv_separatorLine :: "jstring list \<Rightarrow> jstring" where
  "csv_separatorLine header =
     str ''| '' @ join (str '' | '') (map (\<lambda>_. str ''---'') header) @ str '' |'' @ nl"

definition csv_formatAsMarkdown :: "jstring list list \<Rightarrow> jstring" where
  "csv_formatAsMarkdown rws =
     (case rws of
        [] \<Rightarrow> []
      | r0 # body \<Rightarrow>
          csv_rowLine r0 @ csv_separatorLine (map escapePipe r0) @ concat (map csv_rowLine body))"

text \<open>\<open>headers[idx] || `col${idx}`\<close>: a missing or empty header cell gives the synthetic key.\<close>

definition csv_key :: "jstring list \<Rightarrow> nat \<Rightarrow> jstring" where
  "csv_key hdrs idx =
     (if idx < length hdrs \<and> hdrs ! idx \<noteq> [] then hdrs ! idx else str ''col'' @ toStringNat idx)"

definition csv_formatAsJSON :: "json_lib \<Rightarrow> jstring list list \<Rightarrow> jstring" where
  "csv_formatAsJSON js rws =
     (case rws of
        [] \<Rightarrow> str ''[]''
      | hdrs # body \<Rightarrow>
          stringify_rows js
            (map (\<lambda>row. map (\<lambda>(idx, c). (csv_key hdrs idx, c)) (zip [0..<length row] row)) body))"

text \<open>The note appended when rows were cut: \<open>`\n\n... (omitted) ${lines.length - maxRows} (rows)`\<close>.\<close>

definition csv_omittedNote :: "int \<Rightarrow> jstring" where
  "csv_omittedNote k =
     [10, 10, 46, 46, 46, 32, 30465, 30053, 20102, 32] @ toStringInt k @ [32, 34892, 25968, 25454]"

definition emptyFileText :: jstring where
  "emptyFileText = [31354, 25991, 20214]"

text \<open>The one-line summary of raw output: \<open>`[CSV]${headers.length} (columns), ${rows.length} (rows)`\<close>.\<close>

definition csv_rawSummary :: "nat \<Rightarrow> nat \<Rightarrow> jstring" where
  "csv_rawSummary ncols nrows =
     [12304, 67, 83, 86, 12305] @ toStringNat ncols @ [32, 21015, 44, 32] @ toStringNat nrows @
     [32, 34892]"

text \<open>
  \<open>parseCSV\<close>. The buffer is given by its UTF-8 decoding, \<open>maxRows\<close> is an integer. The
  file name is used by nothing in the body.
\<close>

definition csv_delimiterOf :: "csv_config option \<Rightarrow> jstring" where
  "csv_delimiterOf config = (case Option.bind config delimiter of None \<Rightarrow> str '','' | Some d \<Rightarrow> d)"

definition csv_maxRowsOf :: "csv_config option \<Rightarrow> int" where
  "csv_maxRowsOf config = (case Option.bind config maxRows of None \<Rightarrow> - 1 | Some m \<Rightarrow> m)"

definition csv_formatOf :: "csv_config option \<Rightarrow> OutputFormat" where
  "csv_formatOf config = (case Option.bind config outputFormat of None \<Rightarrow> Markdown | Some f \<Rightarrow> f)"

text \<open>\<open>text.split(/\r?\n/).filter((line) => line.trim())\<close>: the non-blank lines.\<close>

definition csv_lines :: "jstring \<Rightarrow> jstring list" where
  "csv_lines buffer = filter (\<lambda>line. trim line \<noteq> []) (splitLines buffer)"

definition parseCSV :: "json_lib \<Rightarrow> jstring \<Rightarrow> jstring \<Rightarrow> csv_config option \<Rightarrow> CSVParseResult" where
  "parseCSV js buffer fileName config =
     (let delim = csv_delimiterOf config;
          maxR = csv_maxRowsOf config;
          fmt = csv_formatOf config;
          lines = csv_lines buffer
      in if length lines = 0 then
           \<lparr>content = emptyFileText, rawData = None,
            metadata = \<lparr>rowCount = 0, truncated = False\<rparr>\<rparr>
         else
           let effectiveMaxRows = (if maxR > 0 then maxR else int (length lines));
               rowsToInclude = min (int (length lines)) effectiveMaxRows;
               trunc = (maxR > 0 \<and> int (length lines) > maxR);
               parsedRows = map (\<lambda>line. parseCSVLine line delim) (take (nat rowsToInclude) lines);
               hdrs = (case parsedRows of [] \<Rightarrow> [] | h # _ \<Rightarrow> h);
               body = drop 1 parsedRows;
               raw = (if fmt = Raw then
                        Some \<lparr>sheets = [\<lparr>name = str ''CSV'', headers = hdrs, rows = body,
                                         totalRows = length body\<rparr>]\<rparr>
                      else None);
               content0 =
                 (if fmt = Raw then csv_rawSummary (length hdrs) (length body)
                  else if fmt = Markdown then csv_formatAsMarkdown parsedRows
                  else if fmt = Json then csv_formatAsJSON js parsedRows
                  else join nl (map (\<lambda>row. join delim row) parsedRows));
               content1 =
                 (if trunc then content0 @ csv_omittedNote (int (length lines) - maxR) else content0)
           in \<lparr>content = trim content1, rawData = raw,
               metadata = \<lparr>rowCount = rowsToInclude, truncated = trunc\<rparr>\<rparr>)"

section \<open>Excel parser (parsers/excel.ts)\<close>

text \<open>
  The workbook is what \<open>XLSX.read\<close> returns: the sheet names in workbook order and the
  sheets by name. A worksheet is given by the row matrix that
  \<open>XLSX.utils.sheet_to_json(worksheet, {header: 1})\<close> makes of it.
\<close>

record workbook =
  SheetNames :: "jstring list"
  Sheets :: "jstring \<Rightarrow> row list option"

text \<open>\<open>sheet_to_json\<close> of a sheet the workbook does not have is the empty matrix.\<close>

definition sheet_to_json :: "row list option \<Rightarrow> row list" where
  "sheet_to_json worksheet = (case worksheet of None \<Rightarrow> [] | Some m \<Rightarrow> m)"

record excel_config =
  maxRows :: "int option"
  allSheets :: "bool option"
  outputFormat :: "OutputFormat option"

record excel_metadata =
  sheetNames :: "jstring list"
  rowCount :: int
  truncated :: bool

record ExcelParseResult =
  content :: jstring
  rawData :: "row RawOutput option"
  metadata :: excel_metadata

text \<open>\<open>row || []\<close>: the cells of a row, none for a hole, \<open>undefined\<close> or \<open>null\<close>.\<close>

definition rowCells :: "row \<Rightarrow> cell list" where
  "rowCells r = (case r of RCells cs \<Rightarrow> cs | _ \<Rightarrow> [])"

text \<open>
  What \<open>.map((row) => (row || []).map((cell) => cell))\<close> makes of one element of the
  matrix: a hole stays a hole, since \<open>map\<close> passes over it.
\<close>

definition rawRow :: "row \<Rightarrow> row" where
  "rawRow r = (case r of RHole \<Rightarrow> RHole | RNullish \<Rightarrow> RCells [] | RCells cs \<Rightarrow> RCells cs)"

text \<open>
  The markdown text of a cell, as the \<open>map\<close> over the row leaves it: a hole stays a hole
  (\<open>None\<close>), undefined and null give the empty string, any other value
  \<open>String(cell).trim()\<close> with pipes escaped.
\<close>

definition excel_cellText :: "cell \<Rightarrow> jstring option" where
  "excel_cellText c =
     (case c of
        CHole \<Rightarrow> None
      | CVal s \<Rightarrow> Some (escapePipe (trim s))
      | _ \<Rightarrow> Some [])"

text \<open>\<open>join\<close> on an array with holes: a hole is rendered as the empty string.\<close>

definition joinSparse :: "jstring \<Rightarrow> jstring option list \<Rightarrow> jstring" where
  "joinSparse sep xs = join sep (map (\<lambda>x. case x of None \<Rightarrow> [] | Some t \<Rightarrow> t) xs)"

definition excel_rowLine :: "row \<Rightarrow> jstring" where
  "excel_rowLine r =
     str ''| '' @ joinSparse (str '' | '') (map excel_cellText (rowCells r)) @ str '' |'' @ nl"

definition excel_sheetTitle :: "jstring \<Rightarrow> jstring" where
  "excel_sheetTitle sheetName = [12304, 24037, 20316, 34920, 58, 32] @ sheetName @ [12305]"

definition excel_omittedNote :: "int \<Rightarrow> jstring" where
  "excel_omittedNote k =
     [10, 46, 46, 46, 32, 30465, 30053, 20102, 32] @ toStringInt k @ [32, 34892, 25968, 25454, 10]"

text \<open>The rows a loop \<open>for (i = 1; i < maxRows && i < data.length; i++)\<close> visits.\<close>

definition bodyRows :: "'a list \<Rightarrow> int \<Rightarrow> 'a list" where
  "bodyRows data maxR = drop 1 (take (nat maxR) data)"

definition excel_formatAsMarkdown :: "jstring \<Rightarrow> row list \<Rightarrow> int \<Rightarrow> jstring" where
  "excel_formatAsMarkdown sheetName data maxR =
     nl @ excel_sheetTitle sheetName @ nl @
     (if length data > 0 then
        (let header = map excel_cellText (rowCells (hd data)) in
           str ''| '' @ joinSparse (str '' | '') header @ str '' |'' @ nl @
           str ''| '' @ joinSparse (str '' | '') (map (map_option (\<lambda>_. str ''---'')) header) @
           str '' |'' @ nl @
           concat (map excel_rowLine (bodyRows data maxR)) @
           (if int (length data) > maxR then excel_omittedNote (int (length data) - maxR) else []))
      else []) @ nl"

text \<open>
  \<open>headers[idx] !== undefined ? String(headers[idx]) : `col${idx}`\<close>; a hole reads as
  \<open>undefined\<close>.
\<close>

definition excel_key :: "cell list \<Rightarrow> nat \<Rightarrow> jstring" where
  "excel_key hdrs idx =
     (if idx < length hdrs then
        (case hdrs ! idx of
           CHole \<Rightarrow> str ''col'' @ toStringNat idx
         | CUndefined \<Rightarrow> str ''col'' @ toStringNat idx
         | CNull \<Rightarrow> str ''null''
         | CVal s \<Rightarrow> s)
      else str ''col'' @ toStringNat idx)"

text \<open>The property assignments of one row: \<open>forEach\<close> passes over the holes.\<close>

definition excel_formatAsJSON :: "json_lib \<Rightarrow> jstring \<Rightarrow> row list \<Rightarrow> int \<Rightarrow> jstring" where
  "excel_formatAsJSON js sheetName data maxR =
     (let hdrs = (case data of [] \<Rightarrow> [] | h # _ \<Rightarrow> rowCells h) in
        stringify_sheet js sheetName
          (map (\<lambda>r. map (\<lambda>(idx, c). (excel_key hdrs idx, c))
                        (filter (\<lambda>(idx, c). c \<noteq> CHole)
                                (zip [0..<length (rowCells r)] (rowCells r))))
               (bodyRows data maxR)) @ nl)"

text \<open>
  One CSV field: quoted, with quotes doubled, when it holds a comma, a quote or a line feed;
  empty for undefined, null and a hole.
\<close>

definition excel_csvField :: "cell \<Rightarrow> jstring" where
  "excel_csvField c =
     (case c of
        CVal s \<Rightarrow>
          (if 44 \<in> set s \<or> 34 \<in> set s \<or> 10 \<in> set s then [34] @ doubleQuotes s @ [34] else s)
      | _ \<Rightarrow> [])"

definition excel_formatAsCSV :: "row list \<Rightarrow> int \<Rightarrow> jstring" where
  "excel_formatAsCSV data maxR =
     concat (map (\<lambda>r. join (str '','') (map excel_csvField (rowCells r)) @ nl)
                 (take (nat maxR) data))"

definition excel_rawSummary :: "jstring \<Rightarrow> nat \<Rightarrow> jstring" where
  "excel_rawSummary sheetName n =
     excel_sheetTitle sheetName @ toStringNat n @ [32, 34892, 10]"

text \<open>The variables the sheet loop of \<open>parseExcel\<close> updates.\<close>

record excel_state =
  xcontent :: jstring
  xtotalRows :: int
  xtruncated :: bool
  xrawSheets :: "row RawSheetData list"

text \<open>One iteration of \<open>for (const sheetName of sheetsToProcess)\<close>, on the sheet's row matrix.\<close>

definition processSheet ::
  "json_lib \<Rightarrow> int \<Rightarrow> OutputFormat \<Rightarrow> excel_state \<Rightarrow> jstring \<times> row list \<Rightarrow> excel_state" where
  "processSheet js maxR fmt st sheet =
     (let sheetName = fst sheet; jsonData = snd sheet in
      if length jsonData = 0 then st
      else
        let effectiveMaxRows = (if maxR > 0 then maxR else int (length jsonData));
            rowsToInclude = min (int (length jsonData)) effectiveMaxRows;
            st1 = (if maxR > 0 \<and> int (length jsonData) > maxR then st\<lparr>xtruncated := True\<rparr> else st);
            st2 =
              (if fmt = Raw then
                 st1\<lparr>xrawSheets := xrawSheets st1 @
                        [\<lparr>name = sheetName, headers = [],
                          rows = map rawRow (take (nat rowsToInclude) jsonData),
                          totalRows = length jsonData\<rparr>],
                      xcontent := xcontent st1 @ excel_rawSummary sheetName (length jsonData)\<rparr>
               else if fmt = Markdown then
                 st1\<lparr>xcontent := xcontent st1 @ excel_formatAsMarkdown sheetName jsonData rowsToInclude\<rparr>
               else if fmt = Json then
                 st1\<lparr>xcontent := xcontent st1 @ excel_formatAsJSON js sheetName jsonData rowsToInclude\<rparr>
               else
                 st1\<lparr>xcontent := xcontent st1 @ excel_formatAsCSV jsonData rowsToInclude\<rparr>)
        in st2\<lparr>xtotalRows := xtotalRows st2 + rowsToInclude\<rparr>)"

text \<open>
  \<open>sheetsToProcess\<close> with each sheet's matrix looked up: every sheet, or the first name only
  (of a workbook without sheets, the undefined name, which has no sheet).
\<close>

definition sheetsToProcess :: "workbook \<Rightarrow> bool \<Rightarrow> (jstring \<times> row list) list" where
  "sheetsToProcess wb allS =
     (if allS then map (\<lambda>n. (n, sheet_to_json (Sheets wb n))) (SheetNames wb)
      else (case SheetNames wb of
              [] \<Rightarrow> [(str ''undefined'', sheet_to_json None)]
            | n # _ \<Rightarrow> [(n, sheet_to_json (Sheets wb n))]))"

definition excel_init :: excel_state where
  "excel_init = \<lparr>xcontent = [], xtotalRows = 0, xtruncated = False, xrawSheets = []\<rparr>"

text \<open>\<open>parseExcel\<close>, on the workbook read from the buffer.\<close>

definition excel_maxRowsOf :: "excel_config option \<Rightarrow> int" where
  "excel_maxRowsOf config =
     (case Option.bind config excel_config.maxRows of None \<Rightarrow> - 1 | Some m \<Rightarrow> m)"

definition excel_allSheetsOf :: "excel_config option \<Rightarrow> bool" where
  "excel_allSheetsOf config = (case Option.bind config allSheets of None \<Rightarrow> True | Some b \<Rightarrow> b)"

definition excel_formatOf :: "excel_config option \<Rightarrow> OutputFormat" where
  "excel_formatOf config =
     (case Option.bind config excel_config.outputFormat of None \<Rightarrow> Markdown | Some f \<Rightarrow> f)"

definition parseExcel :: "json_lib \<Rightarrow> workbook \<Rightarrow> jstring \<Rightarrow> excel_config option \<Rightarrow> ExcelParseResult" where
  "parseExcel js wb fileName config =
     (let maxR = excel_maxRowsOf config;
          allS = excel_allSheetsOf config;
          fmt = excel_formatOf config;
          st = foldl (processSheet js maxR fmt) excel_init (sheetsToProcess wb allS)
      in \<lparr>content = trim (xcontent st),
          rawData = (if fmt = Raw then Some \<lparr>sheets = xrawSheets st\<rparr> else None),
          metadata = \<lparr>sheetNames = SheetNames wb, rowCount = xtotalRows st,
                      truncated = xtruncated st\<rparr>\<rparr>)"

section \<open>Vision providers (providers/openai.ts, gemini.ts, anthropic.ts)\<close>

text \<open>
  The outcome of one HTTP call made through axios: the promise is rejected with an error,
  given by its message, or it resolves with the response data.
\<close>

datatype 'r http = Rejected jstring | Response 'r

datatype AIProvider = OpenAI | Gemini | Anthropic | Custom

text \<open>
  Of \<open>AIConfig\<close> the provider tag and \<open>maxRetries\<close> are modelled; the key, base URL, model
  names, timeout and headers only shape the requests, whose answers are given from outside.
\<close>

record AIConfig =
  provider :: AIProvider
  maxRetries :: "int option"

record VisionRequest =
  imageUrl :: jstring
  prompt :: "jstring option"
  maxTokens :: "int option"

text \<open>
  What the vision backends answer. Every attempt of one \<open>analyzeImage\<close> call posts the same
  body, so the answers to a request are indexed by the attempt number (from 1). The data of
  an OpenAI answer is read at \<open>choices[0].message.content\<close> and that of an Anthropic answer
  at \<open>content[0].text\<close> (\<open>None\<close> when the path is missing); the data of a Gemini answer is read
  at \<open>candidates[0].content.parts\<close>, a list of parts with an optional text. \<open>image_get\<close> is
  the download of the image that the Gemini and Anthropic providers make first.
\<close>

record backends =
  openai_post :: "VisionRequest \<Rightarrow> nat \<Rightarrow> jstring option http"
  gemini_post :: "VisionRequest \<Rightarrow> nat \<Rightarrow> jstring option list option http"
  anthropic_post :: "VisionRequest \<Rightarrow> nat \<Rightarrow> jstring option http"
  image_get :: "jstring \<Rightarrow> unit http"

text \<open>What a call of \<open>analyzeImage\<close> does, in order: requests and the delays between them.\<close>

datatype event = FetchImage | Post nat | Sleep int

text \<open>\<open>this.config.maxRetries || 3\<close>: an absent and a zero \<open>maxRetries\<close> both give 3.\<close>

definition maxRetriesOf :: "AIConfig \<Rightarrow> int" where
  "maxRetriesOf config = (case maxRetries config of None \<Rightarrow> 3 | Some n \<Rightarrow> if n = 0 then 3 else n)"

text \<open>The message of the error thrown for an answer without text.\<close>

definition emptyContentError :: jstring where
  "emptyContentError = [65, 73, 32, 36820, 22238, 20869, 23481, 20026, 31354]"

text \<open>
  The message of the error thrown after the loop:
  \<open>`(recognition failed): ${lastError?.message || "(unknown error)"}`\<close>.
\<close>

definition recognitionFailed :: jstring where
  "recognitionFailed = [22270, 29255, 35782, 21035, 22833, 36133, 58, 32]"

definition unknownError :: jstring where
  "unknownError = [26410, 30693, 38169, 35823]"

definition wrapError :: "jstring option \<Rightarrow> jstring" where
  "wrapError lastError =
     recognitionFailed @
     (case lastError of None \<Rightarrow> unknownError | Some m \<Rightarrow> if m = [] then unknownError else m)"

text \<open>
  The body of the \<open>try\<close> of one attempt: the request is rejected, or its answer has a
  non-empty text, which is returned, or the empty-content error is thrown. \<open>Inl\<close> is the
  message of the error caught, \<open>Inr\<close> the content returned.
\<close>

definition attemptOutcome :: "('r \<Rightarrow> jstring) \<Rightarrow> 'r http \<Rightarrow> jstring + jstring" where
  "attemptOutcome text answer =
     (case answer of
        Rejected msg \<Rightarrow> Inl msg
      | Response r \<Rightarrow> if text r \<noteq> [] then Inr (text r) else Inl emptyContentError)"

text \<open>
  The retry loop \<open>for (attempt = 1; attempt <= maxRetries; attempt++)\<close> shared by the three
  providers, from a given attempt on, with the error caught last and the events so far.
\<close>

function retryLoop ::
  "('r \<Rightarrow> jstring) \<Rightarrow> (nat \<Rightarrow> 'r http) \<Rightarrow> int \<Rightarrow> nat \<Rightarrow> jstring option \<Rightarrow> event list \<Rightarrow>
     event list \<times> (jstring + jstring)" where
  "retryLoop text post maxR attempt lastError trace =
     (if int attempt \<le> maxR then
        (case attemptOutcome text (post attempt) of
           Inr c \<Rightarrow> (trace @ [Post attempt], Inr c)
         | Inl msg \<Rightarrow>
             retryLoop text post maxR (attempt + 1) (Some msg)
               (if int attempt < maxR then trace @ [Post attempt, Sleep (500 * int attempt)]
                else trace @ [Post attempt]))
      else (trace, Inl (wrapError lastError)))"
  by pat_completeness auto
termination
  by (relation "measure (\<lambda>(text, post, maxR, attempt, lastError, trace). nat (maxR + 1 - int attempt))")
     auto

declare retryLoop.simps [simp del]

definition contentText :: "jstring option \<Rightarrow> jstring" where
  "contentText c = (case c of None \<Rightarrow> [] | Some t \<Rightarrow> t)"

text \<open>\<open>extractText\<close> of the Gemini provider: the non-empty texts of the parts, joined.\<close>

definition extractText :: "jstring option list option \<Rightarrow> jstring" where
  "extractText data =
     (case data of
        None \<Rightarrow> []
      | Some parts \<Rightarrow> concat (map contentText parts))"

definition openai_analyzeImage ::
  "AIConfig \<Rightarrow> backends \<Rightarrow> VisionRequest \<Rightarrow> event list \<times> (jstring + jstring)" where
  "openai_analyzeImage config net request =
     retryLoop contentText (openai_post net request) (maxRetriesOf config) 1 None []"

text \<open>
  The Gemini and Anthropic providers download the image before the loop; when that fails its
  error leaves \<open>analyzeImage\<close> as it is.
\<close>

definition gemini_analyzeImage ::
  "AIConfig \<Rightarrow> backends \<Rightarrow> VisionRequest \<Rightarrow> event list \<times> (jstring + jstring)" where
  "gemini_analyzeImage config net request =
     (case image_get net (imageUrl request) of
        Rejected msg \<Rightarrow> ([FetchImage], Inl msg)
      | Response _ \<Rightarrow>
          retryLoop extractText (gemini_post net request) (maxRetriesOf config) 1 None [FetchImage])"

definition anthropic_analyzeImage ::
  "AIConfig \<Rightarrow> backends \<Rightarrow> VisionRequest \<Rightarrow> event list \<times> (jstring + jstring)" where
  "anthropic_analyzeImage config net request =
     (case image_get net (imageUrl request) of
        Rejected msg \<Rightarrow> ([FetchImage], Inl msg)
      | Response _ \<Rightarrow>
          retryLoop contentText (anthropic_post net request) (maxRetriesOf config) 1 None
            [FetchImage])"

text \<open>\<open>createAIProvider\<close> followed by \<open>analyzeImage\<close>: the custom provider is the OpenAI one.\<close>

definition analyzeImage ::
  "AIConfig \<Rightarrow> backends \<Rightarrow> VisionRequest \<Rightarrow> event list \<times> (jstring + jstring)" where
  "analyzeImage config net request =
     (case provider config of
        OpenAI \<Rightarrow> openai_analyzeImage config net request
      | Gemini \<Rightarrow> gemini_analyzeImage config net request
      | Anthropic \<Rightarrow> anthropic_analyzeImage config net request
      | Custom \<Rightarrow> openai_analyzeImage config net request)"

section \<open>File parser (parser.ts)\<close>

subsection \<open>Runtime functions\<close>

text \<open>
  \<open>decodeURIComponent\<close>. An escape \<open>%XX\<close> below \<open>0x80\<close> is that character; a lead byte is
  followed by its continuation bytes, all escaped, and the sequence must be the UTF-8
  encoding of a code point (not overlong, not a surrogate, at most \<open>0x10FFFF\<close>), which is
  emitted as UTF-16. Anything else raises \<open>URIError\<close>, here \<open>None\<close>.
\<close>

definition hexValue :: "nat \<Rightarrow> nat option" where
  "hexValue c =
     (if 48 \<le> c \<and> c \<le> 57 then Some (c - 48)
      else if 65 \<le> c \<and> c \<le> 70 then Some (c - 55)
      else if 97 \<le> c \<and> c \<le> 102 then Some (c - 87)
      else None)"

fun readEscape :: "jstring \<Rightarrow> (nat \<times> jstring) option" where
  "readEscape (p # h # l # rest) =
     (if p = 37 then
        (case (hexValue h, hexValue l) of
           (Some a, Some b) \<Rightarrow> Some (16 * a + b, rest)
         | _ \<Rightarrow> None)
      else None)"
| "readEscape _ = None"

text \<open>The given number of escaped continuation bytes \<open>10xxxxxx\<close>, folded into the code point.\<close>

fun readContinuation :: "nat \<Rightarrow> nat \<Rightarrow> jstring \<Rightarrow> (nat \<times> jstring) option" where
  "readContinuation 0 acc s = Some (acc, s)"
| "readContinuation (Suc n) acc s =
     (case readEscape s of
        None \<Rightarrow> None
      | Some (b, rest) \<Rightarrow>
          if b div 64 = 2 then readContinuation n (64 * acc + b mod 64) rest else None)"

definition codePointToUTF16 :: "nat \<Rightarrow> jstring" where
  "codePointToUTF16 v =
     (if v < 65536 then [v]
      else [55296 + (v - 65536) div 1024, 56320 + (v - 65536) mod 1024])"

text \<open>One step of the decoder: the code units emitted and the rest of the input.\<close>

definition decodeStep :: "jstring \<Rightarrow> (jstring \<times> jstring) option" where
  "decodeStep s =
     (case s of
        [] \<Rightarrow> None
      | c # cs \<Rightarrow>
          if c \<noteq> 37 then Some ([c], cs)
          else
            (case readEscape s of
               None \<Rightarrow> None
             | Some (b, rest) \<Rightarrow>
                 if b < 128 then Some ([b], rest)
                 else if b div 32 = 6 then
                   (case readContinuation 1 (b mod 32) rest of
                      None \<Rightarrow> None
                    | Some (v, r) \<Rightarrow> if 128 \<le> v then Some (codePointToUTF16 v, r) else None)
                 else if b div 16 = 14 then
                   (case readContinuation 2 (b mod 16) rest of
                      None \<Rightarrow> None
                    | Some (v, r) \<Rightarrow>
                        if 2048 \<le> v \<and> \<not> (55296 \<le> v \<and> v \<le> 57343)
                        then Some (codePointToUTF16 v, r) else None)
                 else if b div 8 = 30 then
                   (case readContinuation 3 (b mod 8) rest of
                      None \<Rightarrow> None
                    | Some (v, r) \<Rightarrow>
                        if 65536 \<le> v \<and> v \<le> 1114111 then Some (codePointToUTF16 v, r) else None)
                 else None))"

lemma readEscape_shorter: "readEscape s = Some (b, rest) \<Longrightarrow> length rest < length s"
  by (induction s rule: readEscape.induct) (auto split: if_splits option.splits)

lemma readContinuation_shorter:
  "readContinuation n acc s = Some (v, rest) \<Longrightarrow> length rest \<le> length s"
proof (induction n arbitrary: acc s)
  case 0
  then show ?case by simp
next
  case (Suc n)
  then show ?case
    by (fastforce split: option.splits if_splits dest: readEscape_shorter)
qed

lemma decodeStep_shorter: "decodeStep s = Some (out, rest) \<Longrightarrow> length rest < length s"
  unfolding decodeStep_def
  by (auto split: list.splits if_splits option.splits prod.splits
      dest!: readEscape_shorter readContinuation_shorter)

function decodeURIComponent :: "jstring \<Rightarrow> jstring option" where
  "decodeURIComponent s =
     (if s = [] then Some []
      else
        (case decodeStep s of
           None \<Rightarrow> None
         | Some (out, rest) \<Rightarrow>
             (case decodeURIComponent rest of
                None \<Rightarrow> None
              | Some r \<Rightarrow> Some (out @ r))))"
  by pat_completeness auto
termination
  by (relation "measure length") (auto dest: decodeStep_shorter)

declare decodeURIComponent.simps [simp del]

text \<open>
  \<open>String.prototype.toLowerCase\<close>, one code unit at a time. The ASCII capitals are mapped,
  and so are the two characters beyond ASCII whose lower case has an ASCII letter (the
  Kelvin sign and the dotted capital I); the other casings of Unicode are left out, they
  yield no ASCII letter.
\<close>

definition lowerUnit :: "nat \<Rightarrow> jstring" where
  "lowerUnit c =
     (if 65 \<le> c \<and> c \<le> 90 then [c + 32]
      else if c = 8490 then [107]
      else if c = 304 then [105, 775]
      else [c])"

definition toLowerCase :: "jstring \<Rightarrow> jstring" where
  "toLowerCase s = concat (map lowerUnit s)"

text \<open>
  \<open>path.extname\<close> of Node.js for POSIX paths: of the last path segment (trailing slashes
  aside), the part from the last dot on; empty when there is no dot, when the last dot
  starts the segment, and for the segment \<open>..\<close>.
\<close>

definition lastSegment :: "jstring \<Rightarrow> jstring" where
  "lastSegment p = rev (takeWhile (\<lambda>c. c \<noteq> 47) (dropWhile (\<lambda>c. c = 47) (rev p)))"

definition extname :: "jstring \<Rightarrow> jstring" where
  "extname p =
     (let base = lastSegment p;
          afterDot = rev (takeWhile (\<lambda>c. c \<noteq> 46) (rev base))
      in if 46 \<notin> set base then []
         else if Suc (length afterDot) = length base then []
         else if base = [46, 46] then []
         else 46 # afterDot)"

subsection \<open>Data model (types.ts)\<close>

datatype FileType =
  TExcel | TCsv | TWord | TText | TPdf | TJson | TYaml | TXml | THtml | TMarkdown
  | TImage | TAudio | TVideo | TUnknown

text \<open>
  The metadata bag of a parsed file. \<open>decoderData\<close> stands for the fields that the decoder
  of a document format adds (line counts, headings and the like).
\<close>

record file_metadata =
  size_bytes :: "nat option"
  mimeType :: "jstring option"
  sheetNames :: "jstring list option"
  rowCount :: "int option"
  truncated :: "bool option"
  decoderData :: "jstring option"

text \<open>\<open>ParsedFile\<close>. Its optional \<open>rawData\<close> field is assigned nowhere in the parser.\<close>

record ParsedFile =
  fileName :: jstring
  url :: jstring
  type :: FileType
  content :: jstring
  success :: bool
  error :: "jstring option"
  metadata :: "file_metadata option"

subsection \<open>Collaborators\<close>

text \<open>
  A downloaded buffer is its bytes. What the parser takes from outside: the JSON runtime,
  \<open>Buffer.toString("utf8")\<close>, \<open>XLSX.read\<close>, the decoders of the document formats (word,
  text, pdf, json, yaml, xml, html, markdown), each of which throws an error (\<open>Inl\<close>, its
  message) or returns a content and its metadata, the download of a URL, and the vision
  backends.
\<close>

type_synonym buffer = "nat list"

record decoded =
  dcontent :: jstring
  dmetadata :: jstring

record runtime =
  json :: json_lib
  toString_utf8 :: "buffer \<Rightarrow> jstring"
  XLSX_read :: "buffer \<Rightarrow> jstring + workbook"
  decoder :: "FileType \<Rightarrow> buffer \<Rightarrow> jstring \<Rightarrow> jstring + decoded"
  download :: "jstring \<Rightarrow> buffer http"
  vision :: backends

text \<open>
  Of \<open>ParserConfig\<close>: the AI block, the excel block and the csv block. The download block
  shapes the download request, the logging block the log; neither is modelled.
\<close>

record ParserConfig =
  ai :: "AIConfig option"
  excel :: "excel_config option"
  csv :: "csv_config option"

subsection \<open>Classification\<close>

definition EXTENSION_MAP :: "(jstring \<times> FileType) list" where
  "EXTENSION_MAP =
     [(str ''.xlsx'', TExcel), (str ''.xls'', TExcel), (str ''.csv'', TCsv),
      (str ''.docx'', TWord), (str ''.doc'', TWord), (str ''.txt'', TText), (str ''.rtf'', TText),
      (str ''.json'', TJson), (str ''.yaml'', TYaml), (str ''.yml'', TYaml), (str ''.xml'', TXml),
      (str ''.html'', THtml), (str ''.htm'', THtml), (str ''.md'', TMarkdown),
      (str ''.markdown'', TMarkdown),
      (str ''.pdf'', TPdf),
      (str ''.jpg'', TImage), (str ''.jpeg'', TImage), (str ''.png'', TImage),
      (str ''.gif'', TImage), (str ''.webp'', TImage), (str ''.bmp'', TImage),
      (str ''.svg'', TImage), (str ''.ico'', TImage), (str ''.tiff'', TImage),
      (str ''.tif'', TImage),
      (str ''.mp3'', TAudio), (str ''.wav'', TAudio), (str ''.ogg'', TAudio),
      (str ''.m4a'', TAudio), (str ''.flac'', TAudio), (str ''.aac'', TAudio),
      (str ''.mp4'', TVideo), (str ''.avi'', TVideo), (str ''.mov'', TVideo),
      (str ''.webm'', TVideo), (str ''.mkv'', TVideo)]"

definition detectFileType :: "jstring \<Rightarrow> FileType" where
  "detectFileType filename =
     (case map_of EXTENSION_MAP (toLowerCase (extname filename)) of
        None \<Rightarrow> TUnknown
      | Some t \<Rightarrow> t)"

text \<open>
  \<open>extractFileName\<close>: the last \<open>/\<close>-segment of the decoded URL up to its first \<open>?\<close>, or
  \<open>unknown\<close> when that is empty or the decoding throws.
\<close>

definition extractFileName :: "jstring \<Rightarrow> jstring" where
  "extractFileName u =
     (case decodeURIComponent u of
        None \<Rightarrow> str ''unknown''
      | Some decoded \<Rightarrow>
          (let filename = takeWhile (\<lambda>c. c \<noteq> 63) (rev (takeWhile (\<lambda>c. c \<noteq> 47) (rev decoded)))
           in if filename = [] then str ''unknown'' else filename))"

definition mimeTypes :: "(jstring \<times> jstring) list" where
  "mimeTypes =
     [(str ''.jpg'', str ''image/jpeg''), (str ''.jpeg'', str ''image/jpeg''),
      (str ''.png'', str ''image/png''), (str ''.gif'', str ''image/gif''),
      (str ''.webp'', str ''image/webp''), (str ''.bmp'', str ''image/bmp''),
      (str ''.svg'', str ''image/svg+xml''), (str ''.ico'', str ''image/x-icon''),
      (str ''.pdf'', str ''application/pdf''),
      (str ''.xlsx'', str ''application/vnd.openxmlformats-officedocument.spreadsheetml.sheet''),
      (str ''.xls'', str ''application/vnd.ms-excel''), (str ''.csv'', str ''text/csv''),
      (str ''.docx'',
       str ''application/vnd.openxmlformats-officedocument.wordprocessingml.document''),
      (str ''.doc'', str ''application/msword''), (str ''.txt'', str ''text/plain''),
      (str ''.json'', str ''application/json''), (str ''.yaml'', str ''text/yaml''),
      (str ''.yml'', str ''text/yaml''), (str ''.xml'', str ''application/xml''),
      (str ''.html'', str ''text/html''), (str ''.htm'', str ''text/html''),
      (str ''.md'', str ''text/markdown''),
      (str ''.mp3'', str ''audio/mpeg''), (str ''.wav'', str ''audio/wav''),
      (str ''.ogg'', str ''audio/ogg''), (str ''.m4a'', str ''audio/m4a''),
      (str ''.mp4'', str ''video/mp4''), (str ''.avi'', str ''video/x-msvideo''),
      (str ''.mov'', str ''video/quicktime''), (str ''.webm'', str ''video/webm'')]"

definition guessMimeType :: "jstring \<Rightarrow> jstring" where
  "guessMimeType filename =
     (case map_of mimeTypes (toLowerCase (extname filename)) of
        None \<Rightarrow> str ''application/octet-stream''
      | Some m \<Rightarrow> m)"

subsection \<open>Parsing one file\<close>

text \<open>The four kinds \<open>parseWithAI\<close> is called for, with their prompts and labels.\<close>

datatype ai_kind = KImage | KAudio | KVideo | KPdf

definition asFileType :: "ai_kind \<Rightarrow> FileType" where
  "asFileType k = (case k of KImage \<Rightarrow> TImage | KAudio \<Rightarrow> TAudio | KVideo \<Rightarrow> TVideo | KPdf \<Rightarrow> TPdf)"

definition prompts :: "ai_kind \<Rightarrow> jstring" where
  "prompts k =
     (case k of
        KImage \<Rightarrow> [35831, 35814, 32454, 20998, 26512, 36825, 24352, 22270, 29255, 30340, 20869,
                   23481, 65292, 21253, 25324, 20135, 21697, 20449, 24687, 12289, 25991, 23383,
                   12289, 22411, 21495, 31561, 12290]
      | KAudio \<Rightarrow> [35831, 36716, 20889, 24182, 20998, 26512, 36825, 27573, 38899, 39057, 30340,
                   20869, 23481, 12290]
      | KVideo \<Rightarrow> [35831, 20998, 26512, 36825, 27573, 35270, 39057, 30340, 20869, 23481, 65292,
                   25551, 36848, 20851, 38190, 20449, 24687, 12290]
      | KPdf \<Rightarrow> [35831, 20998, 26512, 36825, 20010, 32, 80, 68, 70, 32, 25991, 26723, 30340,
                 20869, 23481, 65292, 25552, 21462, 20851, 38190, 20449, 24687, 12290])"

definition labels :: "ai_kind \<Rightarrow> jstring" where
  "labels k =
     (case k of
        KImage \<Rightarrow> [22270, 29255, 25991, 20214]
      | KAudio \<Rightarrow> [38899, 39057, 25991, 20214]
      | KVideo \<Rightarrow> [35270, 39057, 25991, 20214]
      | KPdf \<Rightarrow> [80, 68, 70, 25991, 26723])"

text \<open>
  The placeholder of a file no AI has read:
  \<open>`[${labels[type]}] ${fileName}\n(file link): ${url}\n(an AI must be configured ...)`\<close>.
\<close>

definition placeholder :: "ai_kind \<Rightarrow> jstring \<Rightarrow> jstring \<Rightarrow> jstring" where
  "placeholder k fName u =
     str ''['' @ labels k @ str ''] '' @ fName @ [10, 25991, 20214, 38142, 25509, 58, 32] @ u @
     [10, 65288, 38656, 35201, 37197, 32622, 32, 65, 73, 32, 25165, 33021, 35299, 26512, 27492,
      31867, 22411, 25991, 20214, 65289]"

definition aiMetadata :: "jstring \<Rightarrow> file_metadata" where
  "aiMetadata fName =
     \<lparr>size_bytes = None, mimeType = Some (guessMimeType fName), sheetNames = None,
      rowCount = None, truncated = None, decoderData = None\<rparr>"

text \<open>The request \<open>parseWithAI\<close> hands to the provider.\<close>

definition aiRequest :: "ai_kind \<Rightarrow> jstring \<Rightarrow> VisionRequest" where
  "aiRequest k u =
     \<lparr>imageUrl = u, prompt = Some (prompts k),
      maxTokens = Some (if k = KPdf then 4000 else 2000)\<rparr>"

text \<open>
  \<open>parseWithAI\<close>: with a provider, its answer is the content; without one, or when the
  provider throws, the placeholder is. Either way the record is successful.
\<close>

definition parseWithAI :: "runtime \<Rightarrow> ParserConfig \<Rightarrow> jstring \<Rightarrow> jstring \<Rightarrow> ai_kind \<Rightarrow> ParsedFile" where
  "parseWithAI rt config u fName k =
     (let fallback =
            \<lparr>fileName = fName, url = u, type = asFileType k, content = placeholder k fName u,
             success = True, error = None, metadata = Some (aiMetadata fName)\<rparr>
      in case ai config of
           None \<Rightarrow> fallback
         | Some aiConfig \<Rightarrow>
             (case snd (analyzeImage aiConfig (vision rt) (aiRequest k u)) of
                Inr c \<Rightarrow>
                  \<lparr>fileName = fName, url = u, type = asFileType k, content = c, success = True,
                   error = None, metadata = Some (aiMetadata fName)\<rparr>
              | Inl msg \<Rightarrow> fallback))"

definition unknownFormat :: jstring where
  "unknownFormat = [91, 26410, 30693, 26684, 24335, 93, 32]"

definition unsupportedFormat :: jstring where
  "unsupportedFormat = [19981, 25903, 25345, 30340, 25991, 20214, 26684, 24335]"

definition sizeMetadata :: "buffer \<Rightarrow> file_metadata" where
  "sizeMetadata b =
     \<lparr>size_bytes = Some (length b), mimeType = None, sheetNames = None, rowCount = None,
      truncated = None, decoderData = None\<rparr>"

definition parsed :: "jstring \<Rightarrow> jstring \<Rightarrow> FileType \<Rightarrow> jstring \<Rightarrow> file_metadata \<Rightarrow> ParsedFile" where
  "parsed fName u t c m =
     \<lparr>fileName = fName, url = u, type = t, content = c, success = True, error = None,
      metadata = Some m\<rparr>"

text \<open>
  The \<open>try\<close> block of \<open>parse\<close>: \<open>Inl\<close> is the message of an error thrown in it, \<open>Inr\<close> the
  record it returns.
\<close>

definition parse_try ::
  "runtime \<Rightarrow> ParserConfig \<Rightarrow> jstring \<Rightarrow> jstring \<Rightarrow> FileType \<Rightarrow> jstring + ParsedFile" where
  "parse_try rt config u fName fileType =
     (if fileType = TImage then Inr (parseWithAI rt config u fName KImage)
      else if fileType = TAudio then Inr (parseWithAI rt config u fName KAudio)
      else if fileType = TVideo then Inr (parseWithAI rt config u fName KVideo)
      else if fileType = TUnknown then
        Inr \<lparr>fileName = fName, url = u, type = TUnknown, content = unknownFormat @ fName,
             success = False, error = Some unsupportedFormat, metadata = None\<rparr>
      else
        (case download rt u of
           Rejected msg \<Rightarrow> Inl msg
         | Response b \<Rightarrow>
             (case fileType of
                TExcel \<Rightarrow>
                  (case XLSX_read rt b of
                     Inl msg \<Rightarrow> Inl msg
                   | Inr wb \<Rightarrow>
                       (let result = parseExcel (json rt) wb fName (excel config) in
                          Inr (parsed fName u fileType (ExcelParseResult.content result)
                                 ((sizeMetadata b)
                                    \<lparr>sheetNames :=
                                       Some (excel_metadata.sheetNames
                                               (ExcelParseResult.metadata result)),
                                     rowCount :=
                                       Some (excel_metadata.rowCount
                                               (ExcelParseResult.metadata result)),
                                     truncated :=
                                       Some (excel_metadata.truncated
                                               (ExcelParseResult.metadata result))\<rparr>))))
              | TCsv \<Rightarrow>
                  (let result = parseCSV (json rt) (toString_utf8 rt b) fName (csv config) in
                     Inr (parsed fName u fileType (CSVParseResult.content result)
                            ((sizeMetadata b)
                               \<lparr>rowCount :=
                                  Some (csv_metadata.rowCount (CSVParseResult.metadata result)),
                                truncated :=
                                  Some (csv_metadata.truncated (CSVParseResult.metadata result))\<rparr>)))
              | TPdf \<Rightarrow>
                  (case decoder rt TPdf b fName of
                     Inl msg \<Rightarrow> Inr (parseWithAI rt config u fName KPdf)
                   | Inr result \<Rightarrow>
                       Inr (parsed fName u fileType (dcontent result)
                              ((sizeMetadata b)\<lparr>decoderData := Some (dmetadata result)\<rparr>)))
              | _ \<Rightarrow>
                  (case decoder rt fileType b fName of
                     Inl msg \<Rightarrow> Inl msg
                   | Inr result \<Rightarrow>
                       Inr (parsed fName u fileType (dcontent result)
                              ((sizeMetadata b)\<lparr>decoderData := Some (dmetadata result)\<rparr>))))))"

text \<open>\<open>parse\<close>: an error thrown in the \<open>try\<close> block becomes a failed record with empty content.\<close>

definition parse :: "runtime \<Rightarrow> ParserConfig \<Rightarrow> jstring \<Rightarrow> ParsedFile" where
  "parse rt config u =
     (let fName = extractFileName u; fileType = detectFileType fName in
        case parse_try rt config u fName fileType of
          Inr r \<Rightarrow> r
        | Inl msg \<Rightarrow>
            \<lparr>fileName = fName, url = u, type = fileType, content = [], success = False,
             error = Some msg, metadata = None\<rparr>)"

subsection \<open>Parsing many files\<close>

text \<open>
  The options of \<open>parseMany\<close>. The progress callback acts on some state of the caller, of
  type \<open>'s\<close>; the concurrency is a natural number.
\<close>

record 's BatchParseOptions =
  concurrency :: "nat option"
  continueOnError :: "bool option"
  onProgress :: "(nat \<Rightarrow> nat \<Rightarrow> ParsedFile \<Rightarrow> 's \<Rightarrow> 's) option"

definition concurrencyOf :: "'s BatchParseOptions option \<Rightarrow> nat" where
  "concurrencyOf options = (case Option.bind options concurrency of None \<Rightarrow> 3 | Some c \<Rightarrow> c)"

definition continueOnErrorOf :: "'s BatchParseOptions option \<Rightarrow> bool" where
  "continueOnErrorOf options =
     (case Option.bind options continueOnError of None \<Rightarrow> True | Some b \<Rightarrow> b)"

definition onProgressOf ::
  "'s BatchParseOptions option \<Rightarrow> (nat \<Rightarrow> nat \<Rightarrow> ParsedFile \<Rightarrow> 's \<Rightarrow> 's) option" where
  "onProgressOf options = Option.bind options onProgress"

text \<open>
  The variables of \<open>parseMany\<close>: the results, the completed count and the state the callback
  acts on; \<open>chunks\<close> records, for each \<open>await Promise.all\<close>, the batch it waited for.
\<close>

record 's batch_state =
  results :: "ParsedFile list"
  completed :: nat
  observer :: 's
  chunks :: "jstring list list"

text \<open>
  The task of one URL in a batch: the record \<open>parse\<close> returns, or, when \<open>parse\<close> throws,
  the error again (\<open>continueOnError\<close> false) or a failed record of unknown type.
\<close>

definition batchTask ::
  "(jstring \<Rightarrow> jstring + ParsedFile) \<Rightarrow> bool \<Rightarrow> jstring \<Rightarrow> jstring + ParsedFile" where
  "batchTask parseOne contOnErr u =
     (case parseOne u of
        Inr r \<Rightarrow> Inr r
      | Inl msg \<Rightarrow>
          if \<not> contOnErr then Inl msg
          else Inr \<lparr>fileName = extractFileName u, url = u, type = TUnknown, content = [],
                    success = False, error = Some msg, metadata = None\<rparr>)"

text \<open>
  \<open>Promise.all\<close>: the values in the order of the promises, or a rejection. Which rejection
  wins when several tasks throw depends on timing; the first in order is taken.
\<close>

fun promiseAll :: "(jstring + 'a) list \<Rightarrow> jstring + 'a list" where
  "promiseAll [] = Inr []"
| "promiseAll (x # xs) =
     (case x of
        Inl e \<Rightarrow> Inl e
      | Inr v \<Rightarrow> (case promiseAll xs of Inl e \<Rightarrow> Inl e | Inr vs \<Rightarrow> Inr (v # vs)))"

text \<open>One iteration of \<open>for (const result of batchResults)\<close>.\<close>

definition pushResult ::
  "(nat \<Rightarrow> nat \<Rightarrow> ParsedFile \<Rightarrow> 's \<Rightarrow> 's) option \<Rightarrow> nat \<Rightarrow> 's batch_state \<Rightarrow> ParsedFile \<Rightarrow>
     's batch_state" where
  "pushResult onP n st r =
     st\<lparr>results := results st @ [r],
        completed := completed st + 1,
        observer := (case onP of
                       None \<Rightarrow> observer st
                     | Some f \<Rightarrow> f (completed st + 1) n r (observer st))\<rparr>"

text \<open>
  The loop \<open>for (i = 0; i < urls.length; i += concurrency)\<close>, from a given \<open>i\<close>. It ends
  with the final state (\<open>Inr\<close>) or with the error that rejected a batch and the state then
  (\<open>Inl\<close>); with a concurrency of zero it does not end (\<open>None\<close>).
\<close>

partial_function (option) parseMany_loop ::
  "(jstring \<Rightarrow> jstring + ParsedFile) \<Rightarrow> jstring list \<Rightarrow> nat \<Rightarrow> bool \<Rightarrow>
   (nat \<Rightarrow> nat \<Rightarrow> ParsedFile \<Rightarrow> 's \<Rightarrow> 's) option \<Rightarrow> nat \<Rightarrow> 's batch_state \<Rightarrow>
     (jstring \<times> 's batch_state + 's batch_state) option" where
  "parseMany_loop parseOne urls conc contOnErr onP i st =
     (if i < length urls then
        (case promiseAll (map (batchTask parseOne contOnErr) (take conc (drop i urls))) of
           Inl e \<Rightarrow> Some (Inl (e, st\<lparr>chunks := chunks st @ [take conc (drop i urls)]\<rparr>))
         | Inr batchResults \<Rightarrow>
             parseMany_loop parseOne urls conc contOnErr onP (i + conc)
               (foldl (pushResult onP (length urls))
                      (st\<lparr>chunks := chunks st @ [take conc (drop i urls)]\<rparr>) batchResults))
      else Some (Inr st))"

definition batch_init :: "'s \<Rightarrow> 's batch_state" where
  "batch_init s0 = \<lparr>results = [], completed = 0, observer = s0, chunks = []\<rparr>"

text \<open>\<open>parseMany\<close> of the parser, whose \<open>parse\<close> throws nothing, from the caller's state \<open>s0\<close>.\<close>

definition parseMany ::
  "runtime \<Rightarrow> ParserConfig \<Rightarrow> jstring list \<Rightarrow> 's BatchParseOptions option \<Rightarrow> 's \<Rightarrow>
     (jstring \<times> 's batch_state + 's batch_state) option" where
  "parseMany rt config urls options s0 =
     parseMany_loop (\<lambda>u. Inr (parse rt config u)) urls (concurrencyOf options)
       (continueOnErrorOf options) (onProgressOf options) 0 (batch_init s0)"

subsection \<open>Formatting the results\<close>

datatype OnError = OnSkip | OnInclude | OnError

record FormatOptions =
  includeTitle :: "bool option"
  includeUrl :: "bool option"
  separator :: "jstring option"
  onError :: "OnError option"

definition includeTitleOf :: "FormatOptions option \<Rightarrow> bool" where
  "includeTitleOf options = (case Option.bind options includeTitle of None \<Rightarrow> True | Some b \<Rightarrow> b)"

definition includeUrlOf :: "FormatOptions option \<Rightarrow> bool" where
  "includeUrlOf options = (case Option.bind options includeUrl of None \<Rightarrow> False | Some b \<Rightarrow> b)"

definition separatorOf :: "FormatOptions option \<Rightarrow> jstring" where
  "separatorOf options = (case Option.bind options separator of None \<Rightarrow> str ''---'' | Some x \<Rightarrow> x)"

definition onErrorOf :: "FormatOptions option \<Rightarrow> OnError" where
  "onErrorOf options = (case Option.bind options onError of None \<Rightarrow> OnSkip | Some e \<Rightarrow> e)"

definition getTypeLabel :: "FileType \<Rightarrow> jstring" where
  "getTypeLabel t =
     (case t of
        TExcel \<Rightarrow> [34920, 26684] | TCsv \<Rightarrow> [34920, 26684]
      | TWord \<Rightarrow> [25991, 26723] | TText \<Rightarrow> [25991, 26412]
      | TPdf \<Rightarrow> str ''PDF'' | TJson \<Rightarrow> str ''JSON'' | TYaml \<Rightarrow> str ''YAML'' | TXml \<Rightarrow> str ''XML''
      | THtml \<Rightarrow> [32593, 39029] | TMarkdown \<Rightarrow> str ''Markdown''
      | TImage \<Rightarrow> [22270, 29255] | TAudio \<Rightarrow> [38899, 39057] | TVideo \<Rightarrow> [35270, 39057]
      | TUnknown \<Rightarrow> [25991, 20214])"

text \<open>\<open>${file.error}\<close>: an absent error renders as \<open>undefined\<close>.\<close>

definition errorText :: "ParsedFile \<Rightarrow> jstring" where
  "errorText file = (case error file of None \<Rightarrow> str ''undefined'' | Some m \<Rightarrow> m)"

text \<open>The message of the error thrown: \<open>`(file parsing failed): ${file.fileName} - ${file.error}`\<close>.\<close>

definition failureMessage :: "ParsedFile \<Rightarrow> jstring" where
  "failureMessage file =
     [25991, 20214, 35299, 26512, 22833, 36133, 58, 32] @ fileName file @ str '' - '' @
     errorText file"

text \<open>The note pushed instead: \<open>`[${file.fileName}](parsing failed): ${file.error}`\<close>.\<close>

definition failureNote :: "ParsedFile \<Rightarrow> jstring" where
  "failureNote file =
     [12304] @ fileName file @ [12305] @ [35299, 26512, 22833, 36133, 58, 32] @ errorText file"

text \<open>The block of a successful record: the optional title line, the optional URL line, the content.\<close>

definition formatBlock :: "FormatOptions option \<Rightarrow> ParsedFile \<Rightarrow> jstring" where
  "formatBlock options file =
     (if includeTitleOf options
      then [12304] @ getTypeLabel (type file) @ [12305] @ fileName file @ nl else []) @
     (if includeUrlOf options then str ''URL: '' @ url file @ nl else []) @
     content file"

text \<open>The loop of \<open>format\<close> over the files, with the parts pushed so far; \<open>Inl\<close> is a throw.\<close>

fun format_loop :: "FormatOptions option \<Rightarrow> ParsedFile list \<Rightarrow> jstring list \<Rightarrow> jstring + jstring list" where
  "format_loop options [] parts = Inr parts"
| "format_loop options (file # files) parts =
     (if \<not> success file then
        (if onErrorOf options = OnSkip then format_loop options files parts
         else if onErrorOf options = OnError then Inl (failureMessage file)
         else format_loop options files (parts @ [failureNote file]))
      else format_loop options files (parts @ [formatBlock options file]))"

definition format :: "ParsedFile list \<Rightarrow> FormatOptions option \<Rightarrow> jstring + jstring" where
  "format files options =
     (case format_loop options files [] of
        Inl e \<Rightarrow> Inl e
      | Inr parts \<Rightarrow> Inr (join (nl @ separatorOf options @ nl) parts))"

section \<open>Notions used in the statements\<close>


definition attemptsTrace :: "nat \<Rightarrow> event list" where
  "attemptsTrace k = concat (map (\<lambda>a. [Post a, Sleep (500 * int a)]) [1..<k]) @ [Post k]"


definition downloadsImage :: "AIConfig \<Rightarrow> bool" where
  "downloadsImage config \<longleftrightarrow> provider config = Gemini \<or> provider config = Anthropic"

definition imageFetched :: "AIConfig \<Rightarrow> backends \<Rightarrow> VisionRequest \<Rightarrow> bool" where
  "imageFetched config net request \<longleftrightarrow>
     (downloadsImage config \<longrightarrow> image_get net (imageUrl request) = Response ())"

definition fetchEvents :: "AIConfig \<Rightarrow> event list" where
  "fetchEvents config = (if downloadsImage config then [FetchImage] else [])"

section \<open>Concrete inputs\<close>

text \<open>A JSON runtime for evaluations in which no json output is produced.\<close>

definition json_unused :: json_lib where
  "json_unused = \<lparr>stringify_rows = (\<lambda>_. []), stringify_sheet = (\<lambda>_ _. [])\<rparr>"



text \<open>A CSV text of three lines, read as raw data with at most two rows.\<close>

definition three_rows_csv :: jstring where
  "three_rows_csv = join nl (map str [''a,b'', ''1,2'', ''3,4''])"

definition raw2_config :: "csv_config option" where
  "raw2_config = Some \<lparr>delimiter = None, maxRows = Some 2, outputFormat = Some Raw\<rparr>"

definition three_rows_sheet :: "jstring list RawSheetData" where
  "three_rows_sheet =
     \<lparr>name = str ''CSV'', headers = [str ''a'', str ''b''], rows = [[str ''1'', str ''2'']],
      totalRows = 1\<rparr>"

text \<open>A workbook whose one sheet has the same three rows.\<close>

definition three_rows_book :: workbook where
  "three_rows_book =
     \<lparr>SheetNames = [str ''S''],
      Sheets = (\<lambda>n. if n = str ''S''
                    then Some [RCells [CVal (str ''a''), CVal (str ''b'')],
                               RCells [CVal (str ''1''), CVal (str ''2'')],
                               RCells [CVal (str ''3''), CVal (str ''4'')]]
                    else None)\<rparr>"

text \<open>A CSV line whose second field is quoted and holds a comma and two doubled quotes.\<close>

definition quoted_csv :: jstring where
  "quoted_csv = str ''a,'' @ [34] @ str ''He said '' @ [34, 34] @ str ''hi'' @ [34, 34] @ str '', ok'' @ [34]"

definition quoted_cell :: jstring where
  "quoted_cell = str ''He said '' @ [34] @ str ''hi'' @ [34] @ str '', ok''"

definition csv_out_config :: "csv_config option" where
  "csv_out_config = Some \<lparr>delimiter = None, maxRows = None, outputFormat = Some Csv\<rparr>"

text \<open>A workbook of two sheets: \<open>A\<close> has three rows (the last a hole), \<open>B\<close> has one.\<close>

definition two_sheets :: workbook where
  "two_sheets =
     \<lparr>SheetNames = [str ''A'', str ''B''],
      Sheets = (\<lambda>n. if n = str ''A''
                    then Some [RCells [CVal (str ''h'')], RCells [CVal (str ''1'')], RHole]
                    else if n = str ''B'' then Some [RCells [CVal (str ''k'')]]
                    else None)\<rparr>"

definition sheet_A :: "jstring \<times> row list" where
  "sheet_A = (str ''A'', [RCells [CVal (str ''h'')], RCells [CVal (str ''1'')], RHole])"

definition sheet_B :: "jstring \<times> row list" where
  "sheet_B = (str ''B'', [RCells [CVal (str ''k'')]])"

definition excel_raw2_config :: "excel_config option" where
  "excel_raw2_config = Some \<lparr>maxRows = Some 2, allSheets = None, outputFormat = Some Raw\<rparr>"



definition down_net :: backends where
  "down_net =
     \<lparr>openai_post = (\<lambda>request a. Rejected (str ''down'')),
      gemini_post = (\<lambda>request a. Rejected (str ''down'')),
      anthropic_post = (\<lambda>request a. Rejected (str ''down'')),
      image_get = (\<lambda>u. Rejected (str ''down''))\<rparr>"

definition openai_retries :: "int \<Rightarrow> AIConfig" where
  "openai_retries n = \<lparr>provider = OpenAI, maxRetries = Some n\<rparr>"





text \<open>The raw sheet \<open>parseExcel\<close> pushes for a non-empty sheet.\<close>

definition excel_rawSheetOf :: "int \<Rightarrow> jstring \<times> row list \<Rightarrow> row RawSheetData" where
  "excel_rawSheetOf m sh =
     \<lparr>name = fst sh, headers = [],
      rows = map rawRow
               (take (nat (min (int (length (snd sh))) (if 0 < m then m else int (length (snd sh)))))
                     (snd sh)),
      totalRows = length (snd sh)\<rparr>"

text \<open>
  A runtime without network: every download and every vision request is rejected, every
  decoder throws. Two configurations, without AI and with an OpenAI provider of two
  attempts, and three URLs, of an unknown format, of a CSV file and of an image.
\<close>

definition offline :: runtime where
  "offline =
     \<lparr>json = json_unused, toString_utf8 = (\<lambda>b. []), XLSX_read = (\<lambda>b. Inl (str ''bad workbook'')),
      decoder = (\<lambda>t b n. Inl (str ''bad document'')),
      download = (\<lambda>u. Rejected (str ''offline'')), vision = down_net\<rparr>"

definition no_ai :: ParserConfig where
  "no_ai = \<lparr>ai = None, excel = None, csv = None\<rparr>"

definition openai_twice :: ParserConfig where
  "openai_twice = \<lparr>ai = Some (openai_retries 2), excel = None, csv = None\<rparr>"

definition zip_url :: jstring where "zip_url = str ''https://x.test/archive.zip''"

definition csv_url :: jstring where "csv_url = str ''https://x.test/data.csv''"

definition png_url :: jstring where "png_url = str ''https://x.test/cat.PNG''"

text \<open>
  The consecutive chunks of at most \<open>c\<close> elements of a list, and a progress callback that
  appends each of its calls to a list.
\<close>

function chunksOf :: "nat \<Rightarrow> 'a list \<Rightarrow> 'a list list" where
  "chunksOf c xs = (if c = 0 \<or> xs = [] then [] else take c xs # chunksOf c (drop c xs))"
  by pat_completeness auto
termination
  by (relation "measure (\<lambda>(c, xs). length xs)") auto

declare chunksOf.simps [simp del]

definition recordProgress ::
  "nat \<Rightarrow> nat \<Rightarrow> ParsedFile \<Rightarrow> (nat \<times> nat \<times> ParsedFile) list \<Rightarrow> (nat \<times> nat \<times> ParsedFile) list" where
  "recordProgress k n r calls = calls @ [(k, n, r)]"

text \<open>
  Five URLs parsed two at a time with the recording callback; three records, the middle one
  failed, and format options with a given error policy.
\<close>

definition five_urls :: "jstring list" where
  "five_urls = map str [''https://x.test/a.zip'', ''https://x.test/b.csv'', ''https://x.test/c.png'',
                        ''https://x.test/d.pdf'', ''https://x.test/e.txt'']"

definition two_at_a_time :: "(nat \<times> nat \<times> ParsedFile) list BatchParseOptions option" where
  "two_at_a_time = Some \<lparr>concurrency = Some 2, continueOnError = None, onProgress = Some recordProgress\<rparr>"

definition doc_a :: ParsedFile where
  "doc_a = \<lparr>fileName = str ''a.txt'', url = str ''https://x.test/a.txt'', type = TText,
            content = str ''alpha'', success = True, error = None, metadata = None\<rparr>"

definition failed_b :: ParsedFile where
  "failed_b = \<lparr>fileName = str ''b.zip'', url = str ''https://x.test/b.zip'', type = TUnknown,
               content = [], success = False, error = Some (str ''boom''), metadata = None\<rparr>"

definition doc_c :: ParsedFile where
  "doc_c = \<lparr>fileName = str ''c.txt'', url = str ''https://x.test/c.txt'', type = TText,
            content = str ''gamma'', success = True, error = None, metadata = None\<rparr>"

text \<open>A failed record whose error message has two lines, and the note \<open>format\<close> makes of it.\<close>

definition failed_multiline :: ParsedFile where
  "failed_multiline =
     \<lparr>fileName = str ''c.yaml'', url = str ''https://x.test/c.yaml'', type = TYaml, content = [],
      success = False, error = Some (str ''bad indentation'' @ nl @ str ''at line 2''),
      metadata = None\<rparr>"

definition two_line_note :: jstring where
  "two_line_note =
     [12304] @ str ''c.yaml'' @ [12305, 35299, 26512, 22833, 36133, 58, 32] @
     str ''bad indentation'' @ [10] @ str ''at line 2''"

definition on_error :: "OnError \<Rightarrow> FormatOptions option" where
  "on_error e = Some \<lparr>includeTitle = None, includeUrl = None, separator = None, onError = Some e\<rparr>"

section \<open>Properties of the tabular extractors\<close>

subsection \<open>Strings\<close>






subsection \<open>Evaluation of the concrete inputs\<close>




lemma three_rows_csv_lines:
  "csv_lines three_rows_csv = map str [''a,b'', ''1,2'', ''3,4'']"
  by (simp add: csv_lines_def three_rows_csv_def splitLines_def str_def nl_def trim_def
      isWhiteSpace_def)

lemma raw2_config_simps:
  "csv_maxRowsOf raw2_config = 2" "csv_formatOf raw2_config = Raw"
  "csv_delimiterOf raw2_config = str '',''"
  by (simp_all add: raw2_config_def csv_maxRowsOf_def csv_formatOf_def csv_delimiterOf_def)

lemma three_rows_raw:
  "CSVParseResult.rawData (parseCSV json_unused three_rows_csv [] raw2_config) =
     Some \<lparr>sheets = [three_rows_sheet]\<rparr>"
  by (simp add: parseCSV_def Let_def three_rows_csv_lines raw2_config_simps parseCSVLine_def
      three_rows_sheet_def str_def trim_def isWhiteSpace_def)

lemma excel_raw2_config_simps:
  "excel_maxRowsOf excel_raw2_config = 2" "excel_formatOf excel_raw2_config = Raw"
  "excel_allSheetsOf excel_raw2_config"
  by (simp_all add: excel_raw2_config_def excel_maxRowsOf_def excel_formatOf_def
      excel_allSheetsOf_def)

lemma two_sheets_to_process:
  "sheetsToProcess two_sheets True = [sheet_A, sheet_B]"
  by (simp add: sheetsToProcess_def two_sheets_def sheet_A_def sheet_B_def sheet_to_json_def
      str_def)

subsection \<open>The sheet loop of the Excel parser\<close>

lemma processSheet_truncated:
  "xtruncated (processSheet js m fmt st sheet) \<longleftrightarrow>
     xtruncated st \<or> (0 < m \<and> m < int (length (snd sheet)))"
  by (auto simp add: processSheet_def Let_def)

lemma foldl_processSheet_truncated:
  "xtruncated (foldl (processSheet js m fmt) st shs) \<longleftrightarrow>
     xtruncated st \<or> (\<exists>sheet\<in>set shs. 0 < m \<and> m < int (length (snd sheet)))"
  by (induction shs arbitrary: st) (auto simp add: processSheet_truncated)

lemma processSheet_raw:
  "xrawSheets (processSheet js m Raw st sh) =
     xrawSheets st @ (if snd sh = [] then [] else [excel_rawSheetOf m sh])"
  by (simp add: processSheet_def Let_def excel_rawSheetOf_def)

lemma foldl_processSheet_raw:
  "xrawSheets (foldl (processSheet js m Raw) st shs) =
     xrawSheets st @ map (excel_rawSheetOf m) (filter (\<lambda>sh. snd sh \<noteq> []) shs)"
  by (induction shs arbitrary: st) (simp_all add: processSheet_raw)

lemma excel_raw_sheets:
  "excel_formatOf config = Raw \<Longrightarrow>
   ExcelParseResult.rawData (parseExcel js wb fName config) =
     Some \<lparr>sheets = map (excel_rawSheetOf (excel_maxRowsOf config))
              (filter (\<lambda>sh. snd sh \<noteq> []) (sheetsToProcess wb (excel_allSheetsOf config)))\<rparr>"
  by (simp add: parseExcel_def Let_def foldl_processSheet_raw excel_init_def)

text \<open>
  A header row with a hole: \<open>header.map(() => "---")\<close> passes over the hole, so the separator
  row has an empty cell there, and \<open>---\<close> under the cell that holds \<open>undefined\<close>.
\<close>

lemma markdown_header_hole:
  "excel_formatAsMarkdown (str ''S'') [RCells [CVal (str ''a''), CHole, CVal (str ''c''), CUndefined]] 1 =
     [10, 12304, 24037, 20316, 34920, 58, 32] @ str ''S'' @ [12305, 10] @
     str ''| a |  | c |  |'' @ [10] @
     str ''| --- |  | --- | --- |'' @ [10, 10]"
  by (simp add: excel_formatAsMarkdown_def excel_sheetTitle_def rowCells_def excel_cellText_def
      joinSparse_def bodyRows_def escapePipe_def trim_def isWhiteSpace_def str_def nl_def)

lemma excel_rawSheetOf_counts:
  "name (excel_rawSheetOf m sh) = fst sh \<and> totalRows (excel_rawSheetOf m sh) = length (snd sh) \<and>
   int (length (rows (excel_rawSheetOf m sh))) =
     min (int (length (snd sh))) (if 0 < m then m else int (length (snd sh)))"
  by (simp add: excel_rawSheetOf_def)

lemma excel_raw_row_counts:
  assumes "excel_formatOf config = Raw"
  shows "\<exists>raw. ExcelParseResult.rawData (parseExcel js wb fName config) = Some raw \<and>
         list_all2
           (\<lambda>s sh. name s = fst sh \<and> headers s = [] \<and> totalRows s = length (snd sh) \<and>
              int (length (rows s)) =
                min (int (length (snd sh)))
                    (if 0 < excel_maxRowsOf config then excel_maxRowsOf config
                     else int (length (snd sh))))
           (sheets raw)
           (filter (\<lambda>sh. snd sh \<noteq> []) (sheetsToProcess wb (excel_allSheetsOf config)))"
  unfolding excel_raw_sheets [OF assms]
  by (simp add: list_all2_map1 list_all2_same excel_rawSheetOf_counts excel_rawSheetOf_def)

lemma csv_raw_sheet:
  assumes "csv_formatOf config = Raw" "csv_lines buffer \<noteq> []"
  shows "\<exists>s. CSVParseResult.rawData (parseCSV js buffer fName config) = Some \<lparr>sheets = [s]\<rparr> \<and>
           headers s # rows s =
             map (\<lambda>line. parseCSVLine line (csv_delimiterOf config))
               (take (nat (min (int (length (csv_lines buffer)))
                    (if 0 < csv_maxRowsOf config then csv_maxRowsOf config
                     else int (length (csv_lines buffer)))))
                  (csv_lines buffer)) \<and>
           totalRows s = length (rows s)"
proof -
  let ?ls = "csv_lines buffer"
  let ?n = "nat (min (int (length ?ls))
                 (if 0 < csv_maxRowsOf config then csv_maxRowsOf config else int (length ?ls)))"
  have "0 < ?n" using assms(2) by (cases ?ls) auto
  then have "take ?n ?ls \<noteq> []" using assms(2) by (cases ?ls; cases ?n) auto
  then obtain l rest where t: "take ?n ?ls = l # rest" by (cases "take ?n ?ls") auto
  show ?thesis using assms
    unfolding parseCSV_def Let_def t by simp
qed

section \<open>Claims about the tabular extractors\<close>

text \<open>
  Claim C5. For every Excel workbook processed with \<open>maxRows > 0\<close>, the returned
  \<open>truncated\<close> flag is true if and only if at least one processed sheet has more rows
  than \<open>maxRows\<close>. The flag is sticky: an iteration of the sheet loop that starts with
  the flag set ends with it set, so the flag reached after any prefix of the sheets is
  kept by every later sheet.
\<close>

theorem excel_truncated_iff_some_sheet_exceeds:
  "0 < excel_maxRowsOf config \<longrightarrow>
     (excel_metadata.truncated (ExcelParseResult.metadata (parseExcel js wb fName config)) \<longleftrightarrow>
        (\<exists>sheet\<in>set (sheetsToProcess wb (excel_allSheetsOf config)).
           excel_maxRowsOf config < int (length (snd sheet)))) \<and>
     (xtruncated st \<longrightarrow> xtruncated (processSheet js (excel_maxRowsOf config) fmt st sheet)) \<and>
     (xtruncated (foldl (processSheet js (excel_maxRowsOf config) fmt) excel_init pre) \<longrightarrow>
        xtruncated (foldl (processSheet js (excel_maxRowsOf config) fmt) excel_init (pre @ post)))"
  by (simp add: parseExcel_def Let_def foldl_processSheet_truncated processSheet_truncated
      excel_init_def)

theorem excel_truncated_iff_some_sheet_exceeds_witness:
  "0 < excel_maxRowsOf excel_raw2_config \<and>
   excel_metadata.truncated
     (ExcelParseResult.metadata (parseExcel json_unused two_sheets [] excel_raw2_config)) \<and>
   sheet_A \<in> set (sheetsToProcess two_sheets (excel_allSheetsOf excel_raw2_config)) \<and>
   excel_maxRowsOf excel_raw2_config < int (length (snd sheet_A)) \<and>
   xtruncated (foldl (processSheet json_unused 2 Raw) excel_init [sheet_A]) \<and>
   \<not> 2 < int (length (snd sheet_B)) \<and>
   xtruncated (processSheet json_unused 2 Raw
      (foldl (processSheet json_unused 2 Raw) excel_init [sheet_A]) sheet_B) \<and>
   xtruncated (foldl (processSheet json_unused 2 Raw) excel_init ([sheet_A] @ [sheet_B]))"
proof -
  have a: "xtruncated (foldl (processSheet json_unused 2 Raw) excel_init [sheet_A])"
    by (simp add: processSheet_def Let_def sheet_A_def excel_init_def)
  have b: "sheet_A \<in> set (sheetsToProcess two_sheets (excel_allSheetsOf excel_raw2_config))"
    by (simp add: excel_raw2_config_simps two_sheets_to_process)
  have c: "excel_maxRowsOf excel_raw2_config < int (length (snd sheet_A))"
    by (simp add: excel_raw2_config_simps sheet_A_def)
  have d: "\<not> 2 < int (length (snd sheet_B))"
    by (simp add: sheet_B_def)
  show ?thesis
    using excel_truncated_iff_some_sheet_exceeds [of excel_raw2_config json_unused two_sheets "[]"
        "foldl (processSheet json_unused 2 Raw) excel_init [sheet_A]" Raw sheet_B
        "[sheet_A]" "[sheet_B]"] a b c d
    by (auto simp add: excel_raw2_config_simps)
qed

text \<open>
  Claim C2, evaluated at a failing input. A CSV text of three non-blank lines is parsed with
  \<open>outputFormat = "raw"\<close> and \<open>maxRows = 2\<close>. The claim asks for \<open>totalRows = 3\<close>, the row
  count of the source whatever was cut, and a row matrix of \<open>min 3 2 = 2\<close> rows. The CSV
  extractor returns \<open>totalRows = 1\<close> and a row matrix of one row: it moves the first line
  into \<open>headers\<close> and counts the rows it kept. The Excel extractor, on a sheet of the same
  three rows and with the same settings, returns what the claim says: no headers, the two
  included rows, and \<open>totalRows = 3\<close>.
\<close>

theorem csv_raw_totalRows_after_cut:
  "CSVParseResult.rawData (parseCSV json_unused three_rows_csv [] raw2_config) =
     Some \<lparr>sheets = [three_rows_sheet]\<rparr> \<and>
   length (csv_lines three_rows_csv) = 3 \<and>
   csv_maxRowsOf raw2_config = 2 \<and>
   headers three_rows_sheet = [str ''a'', str ''b''] \<and>
   totalRows three_rows_sheet = 1 \<and>
   totalRows three_rows_sheet \<noteq> length (csv_lines three_rows_csv) \<and>
   length (rows three_rows_sheet) = 1 \<and>
   int (length (rows three_rows_sheet)) \<noteq>
     min (int (length (csv_lines three_rows_csv)))
         (if 0 < csv_maxRowsOf raw2_config then csv_maxRowsOf raw2_config
          else int (length (csv_lines three_rows_csv))) \<and>
   ExcelParseResult.rawData (parseExcel json_unused three_rows_book [] excel_raw2_config) =
     Some \<lparr>sheets =
       [\<lparr>name = str ''S'', headers = [],
         rows = [RCells [CVal (str ''a''), CVal (str ''b'')],
                 RCells [CVal (str ''1''), CVal (str ''2'')]],
         totalRows = 3\<rparr>]\<rparr>"
  by (simp add: three_rows_raw three_rows_csv_lines raw2_config_simps three_rows_sheet_def
      excel_raw_sheets excel_raw2_config_simps sheetsToProcess_def three_rows_book_def
      sheet_to_json_def excel_rawSheetOf_def rawRow_def str_def)

text \<open>
  Claim C3, evaluated at a failing input. The CSV line \<open>a,"He said ""hi"", ok"\<close> parses
  to the fields \<open>a\<close> and \<open>He said "hi", ok\<close>. With \<open>outputFormat = "csv"\<close> the CSV
  extractor joins the fields with the delimiter and nothing else: the second field comes out
  without quotes and with its quotes single, so the output is not the input line. The Excel
  extractor's CSV formatter, given the same two cells, does wrap and double.
\<close>

theorem csv_output_drops_quoting:
  "parseCSVLine quoted_csv (str '','') = [str ''a'', quoted_cell] \<and>
   CSVParseResult.content (parseCSV json_unused quoted_csv [] csv_out_config) =
     str ''a,'' @ quoted_cell \<and>
   CSVParseResult.content (parseCSV json_unused quoted_csv [] csv_out_config) \<noteq> quoted_csv \<and>
   excel_formatAsCSV [RCells [CVal (str ''a''), CVal quoted_cell]] 1 = quoted_csv @ nl"
  by (simp add: parseCSV_def Let_def csv_lines_def splitLines_def csv_out_config_def
      csv_delimiterOf_def csv_maxRowsOf_def csv_formatOf_def parseCSVLine_def
      excel_formatAsCSV_def excel_csvField_def rowCells_def doubleQuotes_def
      quoted_csv_def quoted_cell_def str_def nl_def trim_def isWhiteSpace_def)




section \<open>Properties of the vision providers\<close>


lemma retryLoop_skip_failures:
  assumes "\<forall>i. a \<le> i \<and> i < a + d \<longrightarrow> isl (attemptOutcome tx (post i))"
    and "int (a + d) \<le> maxR"
  shows "retryLoop tx post maxR a le tr =
           retryLoop tx post maxR (a + d)
             (if d = 0 then le else Some (projl (attemptOutcome tx (post (a + d - 1)))))
             (tr @ concat (map (\<lambda>i. [Post i, Sleep (500 * int i)]) [a..<a + d]))"
  using assms
proof (induction d arbitrary: a le tr)
  case 0
  then show ?case by simp
next
  case (Suc d)
  from Suc.prems(1) have "isl (attemptOutcome tx (post a))" by simp
  then obtain msg where m: "attemptOutcome tx (post a) = Inl msg"
    by (cases "attemptOutcome tx (post a)") auto
  have step: "retryLoop tx post maxR a le tr =
      retryLoop tx post maxR (a + 1) (Some msg) (tr @ [Post a, Sleep (500 * int a)])"
    using Suc.prems(2) m by (simp add: retryLoop.simps [of tx post maxR a])
  have ih: "retryLoop tx post maxR (a + 1) (Some msg) (tr @ [Post a, Sleep (500 * int a)]) =
      retryLoop tx post maxR (a + 1 + d)
        (if d = 0 then Some msg else Some (projl (attemptOutcome tx (post (a + 1 + d - 1)))))
        ((tr @ [Post a, Sleep (500 * int a)]) @
           concat (map (\<lambda>i. [Post i, Sleep (500 * int i)]) [a + 1..<a + 1 + d]))"
    using Suc.prems by (intro Suc.IH) auto
  have l: "[a..<a + Suc d] = a # [a + 1..<a + 1 + d]"
    by (simp add: upt_conv_Cons)
  show ?case
    unfolding step ih l using m by (cases d) simp_all
qed


lemma retryLoop_last_fails:
  assumes "int a = maxR" "attemptOutcome tx (post a) = Inl msg"
  shows "retryLoop tx post maxR a le tr = (tr @ [Post a], Inl (wrapError (Some msg)))"
proof -
  have "retryLoop tx post maxR a le tr = retryLoop tx post maxR (a + 1) (Some msg) (tr @ [Post a])"
    using assms by (subst retryLoop.simps) simp
  also have "\<dots> = (tr @ [Post a], Inl (wrapError (Some msg)))"
    using assms by (subst retryLoop.simps) simp
  finally show ?thesis .
qed

lemma retryLoop_exhausted:
  assumes "1 \<le> maxR"
    and "\<forall>i. 1 \<le> i \<and> int i \<le> maxR \<longrightarrow> isl (attemptOutcome tx (post i))"
  shows "retryLoop tx post maxR 1 None tr =
           (tr @ attemptsTrace (nat maxR),
            Inl (wrapError (Some (projl (attemptOutcome tx (post (nat maxR)))))))"
proof -
  obtain d where d: "nat maxR = 1 + d" using assms(1) by (cases "nat maxR") auto
  then have md: "int (1 + d) = maxR" using assms(1) by linarith
  have "isl (attemptOutcome tx (post (1 + d)))"
    using assms(2) md by simp
  then obtain msg where m: "attemptOutcome tx (post (1 + d)) = Inl msg"
    by (cases "attemptOutcome tx (post (1 + d))") auto
  have "retryLoop tx post maxR 1 None tr =
      retryLoop tx post maxR (1 + d)
        (if d = 0 then None else Some (projl (attemptOutcome tx (post (1 + d - 1)))))
        (tr @ concat (map (\<lambda>i. [Post i, Sleep (500 * int i)]) [1..<1 + d]))"
    using assms(2) md by (intro retryLoop_skip_failures) auto
  also have "\<dots> = ((tr @ concat (map (\<lambda>i. [Post i, Sleep (500 * int i)]) [1..<1 + d])) @ [Post (1 + d)],
      Inl (wrapError (Some msg)))"
    using md m by (rule retryLoop_last_fails [where post = post and tx = tx])
  finally show ?thesis using m d by (simp add: attemptsTrace_def)
qed





lemma openai_retries_simps:
  "maxRetriesOf (openai_retries 3) = 3" "maxRetriesOf (openai_retries 2) = 2"
  "maxRetriesOf (openai_retries 0) = 3" "maxRetries (openai_retries n) = Some n"
  "imageFetched (openai_retries n) net request" "fetchEvents (openai_retries n) = []"
  by (simp_all add: maxRetriesOf_def openai_retries_def imageFetched_def downloadsImage_def
      fetchEvents_def)



lemma provider_openai_retries: "provider (openai_retries n) = OpenAI"
  by (simp add: openai_retries_def)

section \<open>Claims about the vision providers\<close>




section \<open>Properties of the file parser\<close>

lemma parseWithAI_success:
  "success (parseWithAI rt config u fName k)" "error (parseWithAI rt config u fName k) = None"
  "type (parseWithAI rt config u fName k) = asFileType k"
  "url (parseWithAI rt config u fName k) = u"
  by (simp_all add: parseWithAI_def Let_def split: option.splits sum.splits)

lemma parseWithAI_placeholder:
  assumes "ai config = None \<or>
     (\<exists>c. ai config = Some c \<and> isl (snd (analyzeImage c (vision rt) (aiRequest k u))))"
  shows "content (parseWithAI rt config u fName k) = placeholder k fName u"
  using assms by (auto simp add: parseWithAI_def Let_def split: option.splits sum.splits)

lemma parsed_simps:
  "success (parsed fName u t c m)" "url (parsed fName u t c m) = u"
  by (simp_all add: parsed_def)

lemma parse_try_unknown:
  "parse_try rt config u fName TUnknown =
     Inr \<lparr>fileName = fName, url = u, type = TUnknown, content = unknownFormat @ fName,
          success = False, error = Some unsupportedFormat, metadata = None\<rparr>"
  by (simp add: parse_try_def)

lemma parse_try_success:
  "t \<noteq> TUnknown \<Longrightarrow> parse_try rt config u fName t = Inr r \<Longrightarrow> success r"
  by (auto simp add: parse_try_def parseWithAI_success parsed_simps Let_def
      split: if_splits http.splits sum.splits FileType.splits)

lemma zip_url_simps:
  "extractFileName zip_url = str ''archive.zip''"
  "detectFileType (str ''archive.zip'') = TUnknown"
  by (simp_all add: zip_url_def extractFileName_def decodeURIComponent.simps decodeStep_def
      detectFileType_def extname_def lastSegment_def toLowerCase_def lowerUnit_def
      EXTENSION_MAP_def str_def Let_def)

lemma csv_url_simps:
  "extractFileName csv_url = str ''data.csv''"
  "detectFileType (str ''data.csv'') = TCsv"
  by (simp_all add: csv_url_def extractFileName_def decodeURIComponent.simps decodeStep_def
      detectFileType_def extname_def lastSegment_def toLowerCase_def lowerUnit_def
      EXTENSION_MAP_def str_def Let_def)

lemma png_url_simps:
  "extractFileName png_url = str ''cat.PNG''"
  "detectFileType (str ''cat.PNG'') = TImage"
  by (simp_all add: png_url_def extractFileName_def decodeURIComponent.simps decodeStep_def
      detectFileType_def extname_def lastSegment_def toLowerCase_def lowerUnit_def
      EXTENSION_MAP_def str_def Let_def)

lemma parse_offline_csv:
  "parse offline no_ai csv_url =
     \<lparr>fileName = str ''data.csv'', url = csv_url, type = TCsv, content = [], success = False,
      error = Some (str ''offline''), metadata = None\<rparr>"
  by (simp add: parse_def Let_def csv_url_simps parse_try_def offline_def)

lemma analyzeImage_down:
  "snd (analyzeImage (openai_retries 2) down_net request) = Inl (recognitionFailed @ str ''down'')"
proof -
  have o: "\<And>a. attemptOutcome contentText (openai_post down_net request a) = Inl (str ''down'')"
    by (simp add: down_net_def attemptOutcome_def)
  have d: "str ''down'' \<noteq> []"
    by (simp add: str_def)
  have "retryLoop contentText (openai_post down_net request) 2 1 None [] =
     (attemptsTrace 2, Inl (recognitionFailed @ str ''down''))"
    using d retryLoop_exhausted [of 2 contentText "openai_post down_net request" "[]"]
    by (simp add: o wrapError_def)
  then show ?thesis
    by (simp add: analyzeImage_def openai_analyzeImage_def openai_retries_simps
        provider_openai_retries)
qed

section \<open>Claims about the file parser\<close>

text \<open>
  Claim C1, as stated, at a concrete input. The URL \<open>https://x.test/archive.zip\<close> is
  classified as unknown; \<open>parse\<close> returns an unsuccessful record whose content is not empty
  but the unknown-format tag followed by the file name.
\<close>

theorem unknown_content_counterexample:
  "detectFileType (extractFileName zip_url) = TUnknown \<and>
   \<not> success (parse offline no_ai zip_url) \<and>
   content (parse offline no_ai zip_url) = unknownFormat @ str ''archive.zip'' \<and>
   content (parse offline no_ai zip_url) \<noteq> []"
  by (simp add: parse_def Let_def zip_url_simps parse_try_unknown unknownFormat_def)

text \<open>
  Claim C1, amended. For every record \<open>parse\<close> produces, for any URL, category and error
  path: \<open>success = false\<close> implies that the error field is set, and that the content is
  empty unless the category is unknown, in which case the content is the unknown-format tag
  followed by the file name. And \<open>parse\<close> on a URL classified as unknown returns
  \<open>success = false\<close>, the non-empty unsupported-format error, and that non-empty content.
\<close>

theorem failed_record_shape:
  "(\<not> success (parse rt config u) \<longrightarrow>
      error (parse rt config u) \<noteq> None \<and>
      (if detectFileType (extractFileName u) = TUnknown
       then content (parse rt config u) = unknownFormat @ extractFileName u
       else content (parse rt config u) = [])) \<and>
   (detectFileType (extractFileName u) = TUnknown \<longrightarrow>
      \<not> success (parse rt config u) \<and> error (parse rt config u) = Some unsupportedFormat \<and>
      unsupportedFormat \<noteq> [] \<and> content (parse rt config u) \<noteq> [])"
proof (cases "detectFileType (extractFileName u) = TUnknown")
  case True
  then show ?thesis
    by (simp add: parse_def Let_def parse_try_unknown unknownFormat_def unsupportedFormat_def)
next
  case False
  show ?thesis
  proof (cases "parse_try rt config u (extractFileName u) (detectFileType (extractFileName u))")
    case (Inl msg)
    with False show ?thesis by (simp add: parse_def Let_def)
  next
    case (Inr r)
    with False parse_try_success [OF False Inr] show ?thesis by (simp add: parse_def Let_def)
  qed
qed

theorem failed_record_shape_witness:
  "\<not> success (parse offline no_ai csv_url) \<and>
   detectFileType (extractFileName csv_url) \<noteq> TUnknown \<and>
   error (parse offline no_ai csv_url) \<noteq> None \<and>
   content (parse offline no_ai csv_url) = [] \<and>
   detectFileType (extractFileName zip_url) = TUnknown \<and>
   \<not> success (parse offline no_ai zip_url) \<and>
   error (parse offline no_ai zip_url) = Some unsupportedFormat \<and>
   content (parse offline no_ai zip_url) = unknownFormat @ str ''archive.zip''"
proof -
  have a: "\<not> success (parse offline no_ai csv_url)"
    by (simp add: parse_offline_csv)
  have b: "detectFileType (extractFileName csv_url) \<noteq> TUnknown"
    by (simp add: csv_url_simps)
  have c: "detectFileType (extractFileName zip_url) = TUnknown"
    by (simp add: zip_url_simps)
  from failed_record_shape [of offline no_ai csv_url] failed_record_shape [of offline no_ai zip_url]
    a b c
  show ?thesis
    by (simp add: zip_url_simps)
qed

text \<open>
  Claim C8. For every URL classified as image, audio or video, \<open>parse\<close> returns a record
  with \<open>success = true\<close> and no error; and when no AI provider is configured, or the
  provider's \<open>analyzeImage\<close> throws (after its retries), the content is the placeholder, which
  contains the original URL literally.
\<close>

theorem ai_kinds_never_fail:
  "asFileType k = detectFileType (extractFileName u) \<and> k \<noteq> KPdf \<longrightarrow>
     success (parse rt config u) \<and> error (parse rt config u) = None \<and>
     (ai config = None \<or>
      (\<exists>c. ai config = Some c \<and> isl (snd (analyzeImage c (vision rt) (aiRequest k u)))) \<longrightarrow>
        content (parse rt config u) = placeholder k (extractFileName u) u \<and>
        (\<exists>pre post. content (parse rt config u) = pre @ u @ post))"
proof (intro impI, elim conjE)
  assume t: "asFileType k = detectFileType (extractFileName u)" and k: "k \<noteq> KPdf"
  have p: "parse rt config u = parseWithAI rt config u (extractFileName u) k"
    using t [symmetric] k by (cases k) (simp_all add: parse_def Let_def parse_try_def asFileType_def)
  have c: "placeholder k (extractFileName u) u =
      (str ''['' @ labels k @ str ''] '' @ extractFileName u @ [10, 25991, 20214, 38142, 25509, 58, 32]) @
      u @ [10, 65288, 38656, 35201, 37197, 32622, 32, 65, 73, 32, 25165, 33021, 35299, 26512, 27492,
           31867, 22411, 25991, 20214, 65289]"
    by (simp add: placeholder_def)
  show "success (parse rt config u) \<and> error (parse rt config u) = None \<and>
     (ai config = None \<or>
      (\<exists>c. ai config = Some c \<and> isl (snd (analyzeImage c (vision rt) (aiRequest k u)))) \<longrightarrow>
        content (parse rt config u) = placeholder k (extractFileName u) u \<and>
        (\<exists>pre post. content (parse rt config u) = pre @ u @ post))"
    unfolding p using c
    by (auto simp add: parseWithAI_success parseWithAI_placeholder simp del: append_assoc)
qed

theorem ai_kinds_never_fail_witness:
  "asFileType KImage = detectFileType (extractFileName png_url) \<and> KImage \<noteq> KPdf \<and>
   ai no_ai = None \<and>
   success (parse offline no_ai png_url) \<and>
   content (parse offline no_ai png_url) = placeholder KImage (str ''cat.PNG'') png_url \<and>
   ai openai_twice = Some (openai_retries 2) \<and>
   isl (snd (analyzeImage (openai_retries 2) (vision offline) (aiRequest KImage png_url))) \<and>
   success (parse offline openai_twice png_url) \<and>
   content (parse offline openai_twice png_url) = placeholder KImage (str ''cat.PNG'') png_url"
proof -
  have t: "asFileType KImage = detectFileType (extractFileName png_url) \<and> KImage \<noteq> KPdf"
    by (simp add: png_url_simps asFileType_def)
  have v: "vision offline = down_net"
    by (simp add: offline_def)
  have f: "isl (snd (analyzeImage (openai_retries 2) (vision offline) (aiRequest KImage png_url)))"
    by (simp add: v analyzeImage_down)
  have n: "ai no_ai = None" "ai openai_twice = Some (openai_retries 2)"
    by (simp_all add: no_ai_def openai_twice_def)
  from ai_kinds_never_fail [of KImage png_url offline no_ai, THEN mp, OF t]
    ai_kinds_never_fail [of KImage png_url offline openai_twice, THEN mp, OF t] f n t
  show ?thesis
    by (simp add: png_url_simps)
qed

section \<open>Properties of the batch scheduler and the formatter\<close>

lemma format_loop_skip:
  "onErrorOf options = OnSkip \<Longrightarrow>
   format_loop options files parts = Inr (parts @ map (formatBlock options) (filter success files))"
  by (induction files arbitrary: parts) simp_all

lemma format_loop_include:
  "onErrorOf options = OnInclude \<Longrightarrow>
   format_loop options files parts =
     Inr (parts @ map (\<lambda>f. if success f then formatBlock options f else failureNote f) files)"
  by (induction files arbitrary: parts) simp_all

lemma format_loop_all_success:
  "\<forall>g\<in>set files. success g \<Longrightarrow>
   format_loop options files parts = Inr (parts @ map (formatBlock options) files)"
  by (induction files arbitrary: parts) simp_all

lemma format_loop_error:
  "onErrorOf options = OnError \<Longrightarrow> \<forall>g\<in>set pre. success g \<Longrightarrow> \<not> success f \<Longrightarrow>
   format_loop options (pre @ f # rest) parts = Inl (failureMessage f)"
  by (induction pre arbitrary: parts) simp_all

lemma chunksOf_Nil: "chunksOf c [] = []"
  by (simp add: chunksOf.simps)

lemma chunksOf_step:
  "0 < c \<Longrightarrow> xs \<noteq> [] \<Longrightarrow> chunksOf c xs = take c xs # chunksOf c (drop c xs)"
  by (subst chunksOf.simps) simp

lemma concat_chunksOf: "0 < c \<Longrightarrow> concat (chunksOf c xs) = xs"
proof (induction c xs rule: chunksOf.induct)
  case (1 c xs)
  then show ?case
    by (cases "xs = []") (simp_all add: chunksOf_Nil chunksOf_step)
qed

lemma chunksOf_sizes: "0 < c \<Longrightarrow> b \<in> set (chunksOf c xs) \<Longrightarrow> 1 \<le> length b \<and> length b \<le> c"
proof (induction c xs rule: chunksOf.induct)
  case (1 c xs)
  show ?case
  proof (cases "xs = []")
    case True
    with "1.prems" show ?thesis by (simp add: chunksOf_Nil)
  next
    case False
    with "1.prems" have "b = take c xs \<or> b \<in> set (chunksOf c (drop c xs))"
      by (simp add: chunksOf_step)
    then show ?thesis
    proof
      assume "b = take c xs"
      with False "1.prems"(1) show ?thesis by (cases xs) auto
    next
      assume "b \<in> set (chunksOf c (drop c xs))"
      with "1.IH" False "1.prems"(1) show ?thesis by simp
    qed
  qed
qed

lemma length_chunksOf: "0 < c \<Longrightarrow> length (chunksOf c xs) = (length xs + c - 1) div c"
proof (induction c xs rule: chunksOf.induct)
  case (1 c xs)
  show ?case
  proof (cases "xs = []")
    case True
    with "1.prems" show ?thesis by (simp add: chunksOf_Nil)
  next
    case False
    then have pos: "0 < length xs" by simp
    have st: "length (chunksOf c xs) = Suc (length (chunksOf c (drop c xs)))"
      using False "1.prems" by (simp add: chunksOf_step)
    have ih: "length (chunksOf c (drop c xs)) = (length (drop c xs) + c - 1) div c"
      using "1.IH" False "1.prems" by blast
    show ?thesis
    proof (cases "c \<le> length xs")
      case True
      have "(length xs + c - 1) div c = ((length xs - 1) + c) div c"
        using pos by (intro arg_cong [where f = "\<lambda>n. n div c"]) linarith
      also have "\<dots> = Suc ((length xs - 1) div c)"
        using "1.prems" div_add_self2 [of c "length xs - 1"] by simp
      also have "(length xs - 1) div c = (length (drop c xs) + c - 1) div c"
        using True by (intro arg_cong [where f = "\<lambda>n. n div c"]) simp
      finally show ?thesis
        unfolding st ih by simp
    next
      case lt: False
      then have d: "drop c xs = []" by simp
      have "c * 1 \<le> length xs + c - 1"
        using pos by linarith
      moreover have "length xs + c - 1 < c * Suc 1"
        using pos lt by simp
      ultimately have "(length xs + c - 1) div c = 1"
        by (rule div_nat_eqI)
      then show ?thesis
        unfolding st d by (simp add: chunksOf_Nil)
    qed
  qed
qed

lemma promiseAll_Inr: "promiseAll (map (\<lambda>u. Inr (g u)) us) = Inr (map g us)"
  by (induction us) simp_all

lemma batchTask_total: "batchTask (\<lambda>u. Inr (p u)) contOnErr u = Inr (p u)"
  by (simp add: batchTask_def)

lemma pushResult_chunks:
  "pushResult onP n (st\<lparr>chunks := X\<rparr>) r = (pushResult onP n st r)\<lparr>chunks := X\<rparr>"
  by (cases onP) (simp_all add: pushResult_def)

lemma pushResult_simps:
  "chunks (pushResult onP n st r) = chunks st"
  "results (pushResult onP n st r) = results st @ [r]"
  "completed (pushResult onP n st r) = completed st + 1"
  "observer (pushResult None n st r) = observer st"
  "observer (pushResult (Some f) n st r) = f (completed st + 1) n r (observer st)"
  by (simp_all add: pushResult_def)

lemma foldl_pushResult_chunks:
  "foldl (pushResult onP n) (st\<lparr>chunks := X\<rparr>) rs = (foldl (pushResult onP n) st rs)\<lparr>chunks := X\<rparr>"
  by (induction rs arbitrary: st) (simp_all add: pushResult_chunks)

lemma chunks_foldl_pushResult: "chunks (foldl (pushResult onP n) st rs) = chunks st"
  by (induction rs arbitrary: st) (simp_all add: pushResult_simps)

lemma results_foldl_pushResult: "results (foldl (pushResult onP n) st rs) = results st @ rs"
  by (induction rs arbitrary: st) (simp_all add: pushResult_simps)

lemma completed_foldl_pushResult:
  "completed (foldl (pushResult onP n) st rs) = completed st + length rs"
  by (induction rs arbitrary: st) (simp_all add: pushResult_simps)

lemma observer_foldl_pushResult_None:
  "observer (foldl (pushResult None n) st rs) = observer st"
  by (induction rs arbitrary: st) (simp_all add: pushResult_simps)

lemma observer_foldl_pushResult_Some:
  "observer (foldl (pushResult (Some f) n) st rs) =
     foldl (\<lambda>s k. f (completed st + k + 1) n (rs ! k) s) (observer st) [0..<length rs]"
proof (induction rs rule: rev_induct)
  case Nil
  then show ?case by simp
next
  case (snoc r rs)
  have "foldl (\<lambda>s k. f (completed st + k + 1) n ((rs @ [r]) ! k) s) (observer st) [0..<length rs] =
      foldl (\<lambda>s k. f (completed st + k + 1) n (rs ! k) s) (observer st) [0..<length rs]"
    by (intro foldl_cong) (simp_all add: nth_append)
  then show ?case
    using snoc.IH
    by (simp add: pushResult_simps completed_foldl_pushResult)
qed

lemma parseMany_loop_total:
  assumes "0 < c"
  shows "parseMany_loop (\<lambda>u. Inr (p u)) urls c contOnErr onP i st =
     Some (Inr ((foldl (pushResult onP (length urls)) st (map p (drop i urls)))
                  \<lparr>chunks := chunks st @ chunksOf c (drop i urls)\<rparr>))"
proof (induction "length urls - i" arbitrary: i st rule: less_induct)
  case less
  show ?case
  proof (cases "i < length urls")
    case False
    then show ?thesis
      by (subst parseMany_loop.simps) (simp add: chunksOf_Nil)
  next
    case True
    let ?batch = "take c (drop i urls)"
    let ?st1 = "foldl (pushResult onP (length urls)) (st\<lparr>chunks := chunks st @ [?batch]\<rparr>) (map p ?batch)"
    have ne: "drop i urls \<noteq> []" using True by simp
    have lt: "length urls - (i + c) < length urls - i" using True assms by simp
    have step: "parseMany_loop (\<lambda>u. Inr (p u)) urls c contOnErr onP i st =
        parseMany_loop (\<lambda>u. Inr (p u)) urls c contOnErr onP (i + c) ?st1"
      using True
      by (subst parseMany_loop.simps) (simp add: batchTask_total [abs_def] promiseAll_Inr)
    have dd: "drop (i + c) urls = drop c (drop i urls)"
      by (simp add: add.commute)
    have split: "map p (drop i urls) = map p ?batch @ map p (drop c (drop i urls))"
      by (metis append_take_drop_id map_append)
    have "parseMany_loop (\<lambda>u. Inr (p u)) urls c contOnErr onP (i + c) ?st1 =
        Some (Inr ((foldl (pushResult onP (length urls)) ?st1 (map p (drop (i + c) urls)))
                  \<lparr>chunks := chunks ?st1 @ chunksOf c (drop (i + c) urls)\<rparr>))"
      by (rule less.hyps [OF lt])
    also have "\<dots> = Some (Inr ((foldl (pushResult onP (length urls)) st (map p (drop i urls)))
                  \<lparr>chunks := chunks st @ chunksOf c (drop i urls)\<rparr>))"
      unfolding dd chunksOf_step [OF assms ne] split
      by (simp add: foldl_pushResult_chunks chunks_foldl_pushResult)
    finally show ?thesis
      unfolding step .
  qed
qed

lemma url_parse: "url (parse rt config u) = u"
  by (auto simp add: parse_def Let_def parse_try_def parseWithAI_def parsed_def
      split: sum.splits if_splits http.splits FileType.splits option.splits)

lemma two_at_a_time_simps:
  "concurrencyOf two_at_a_time = 2" "onProgressOf two_at_a_time = Some recordProgress"
  by (simp_all add: two_at_a_time_def concurrencyOf_def onProgressOf_def)

lemma parseMany_result:
  assumes "0 < concurrencyOf options"
  shows "parseMany rt config urls options s0 =
     Some (Inr ((foldl (pushResult (onProgressOf options) (length urls)) (batch_init s0)
                   (map (parse rt config) urls))
                  \<lparr>chunks := chunksOf (concurrencyOf options) urls\<rparr>))"
  using parseMany_loop_total [OF assms, of "parse rt config" urls "continueOnErrorOf options"
      "onProgressOf options" 0 "batch_init s0"]
  by (simp add: parseMany_def batch_init_def)

lemma on_error_simps:
  "onErrorOf (on_error e) = e" "separatorOf (on_error e) = str ''---''" "onErrorOf None = OnSkip"
  "separatorOf None = str ''---''"
  by (simp_all add: on_error_def onErrorOf_def separatorOf_def)

lemma on_error_title:
  "includeTitleOf (on_error e)" "\<not> includeUrlOf (on_error e)" "includeTitleOf None"
  "\<not> includeUrlOf None"
  by (simp_all add: on_error_def includeTitleOf_def includeUrlOf_def)

lemma docs_success: "success doc_a" "\<not> success failed_b" "success doc_c"
  by (simp_all add: doc_a_def failed_b_def doc_c_def)

section \<open>Claims about the batch scheduler and the formatter\<close>

text \<open>
  Claim C7. For every URL list of length \<open>n\<close> and every concurrency \<open>c \<ge> 1\<close>, \<open>parseMany\<close>
  returns, with exactly \<open>n\<close> records. It awaits \<open>ceil(n / c)\<close> batches one after the other,
  each of at least one and at most \<open>c\<close> URLs, which together are the URL list in order. A
  supplied \<open>onProgress\<close> is called exactly \<open>n\<close> times, the \<open>k\<close>-th call with completed count
  \<open>k\<close>, total \<open>n\<close> and the \<open>k\<close>-th record; without a callback the caller's state is untouched.
\<close>

theorem parseMany_chunks_and_progress:
  "1 \<le> concurrencyOf options \<longrightarrow>
     (\<exists>st. parseMany rt config urls options s0 = Some (Inr st) \<and>
        length (results st) = length urls \<and> completed st = length urls \<and>
        concat (chunks st) = urls \<and>
        length (chunks st) = (length urls + concurrencyOf options - 1) div concurrencyOf options \<and>
        (\<forall>b\<in>set (chunks st). 1 \<le> length b \<and> length b \<le> concurrencyOf options) \<and>
        (onProgressOf options = None \<longrightarrow> observer st = s0) \<and>
        (\<forall>f. onProgressOf options = Some f \<longrightarrow>
           observer st =
             foldl (\<lambda>s k. f (k + 1) (length urls) (results st ! k) s) s0 [0..<length urls]))"
proof
  assume "1 \<le> concurrencyOf options"
  then have c: "0 < concurrencyOf options" by simp
  let ?st = "(foldl (pushResult (onProgressOf options) (length urls)) (batch_init s0)
                   (map (parse rt config) urls))
                  \<lparr>chunks := chunksOf (concurrencyOf options) urls\<rparr>"
  have r: "results ?st = map (parse rt config) urls"
    by (simp add: results_foldl_pushResult batch_init_def)
  have o: "\<And>f. onProgressOf options = Some f \<Longrightarrow>
      observer ?st = foldl (\<lambda>s k. f (k + 1) (length urls) (results ?st ! k) s) s0 [0..<length urls]"
    unfolding r by (simp add: observer_foldl_pushResult_Some batch_init_def)
  have "parseMany rt config urls options s0 = Some (Inr ?st)"
    by (rule parseMany_result [OF c])
  moreover have "length (results ?st) = length urls" "completed ?st = length urls"
    by (simp_all add: results_foldl_pushResult completed_foldl_pushResult batch_init_def)
  moreover have "concat (chunks ?st) = urls"
    "length (chunks ?st) = (length urls + concurrencyOf options - 1) div concurrencyOf options"
    "\<forall>b\<in>set (chunks ?st). 1 \<le> length b \<and> length b \<le> concurrencyOf options"
    using c chunksOf_sizes [OF c]
    by (auto simp add: concat_chunksOf length_chunksOf)
  moreover have "onProgressOf options = None \<longrightarrow> observer ?st = s0"
    by (simp add: observer_foldl_pushResult_None batch_init_def)
  ultimately show "\<exists>st. parseMany rt config urls options s0 = Some (Inr st) \<and>
        length (results st) = length urls \<and> completed st = length urls \<and>
        concat (chunks st) = urls \<and>
        length (chunks st) = (length urls + concurrencyOf options - 1) div concurrencyOf options \<and>
        (\<forall>b\<in>set (chunks st). 1 \<le> length b \<and> length b \<le> concurrencyOf options) \<and>
        (onProgressOf options = None \<longrightarrow> observer st = s0) \<and>
        (\<forall>f. onProgressOf options = Some f \<longrightarrow>
           observer st =
             foldl (\<lambda>s k. f (k + 1) (length urls) (results st ! k) s) s0 [0..<length urls])"
    using o by (intro exI [of _ ?st]) blast
qed

theorem parseMany_chunks_and_progress_witness:
  "1 \<le> concurrencyOf two_at_a_time \<and>
   (\<exists>st. parseMany offline no_ai five_urls two_at_a_time [] = Some (Inr st) \<and>
      length (results st) = 5 \<and> completed st = 5 \<and> length (chunks st) = 3 \<and>
      concat (chunks st) = five_urls \<and>
      (\<forall>b\<in>set (chunks st). 1 \<le> length b \<and> length b \<le> 2) \<and>
      observer st = [(1, 5, results st ! 0), (2, 5, results st ! 1), (3, 5, results st ! 2),
                     (4, 5, results st ! 3), (5, 5, results st ! 4)])"
proof -
  have l: "length five_urls = 5"
    by (simp add: five_urls_def)
  have u: "[0..<5] = [0, 1, 2, 3, 4]"
    by (simp add: upt_conv_Cons)
  from parseMany_chunks_and_progress [of two_at_a_time offline no_ai five_urls "[]"]
  show ?thesis
    by (simp add: two_at_a_time_simps l u recordProgress_def numeral_2_eq_2 [symmetric]
        conj_commute conj_left_commute)
qed

text \<open>
  Claim C9, as stated, at a concrete input. A failed record whose error message has two
  lines, as the messages of the YAML and XML decoders have, is formatted with
  \<open>onError = "include"\<close>: the note emitted in place of its content has two lines, not one.
\<close>

theorem failure_note_two_lines_counterexample:
  "\<not> success failed_multiline \<and> onErrorOf (on_error OnInclude) = OnInclude \<and>
   format [failed_multiline] (on_error OnInclude) = Inr two_line_note \<and>
   splitLines two_line_note =
     [[12304] @ str ''c.yaml'' @ [12305, 35299, 26512, 22833, 36133, 58, 32] @ str ''bad indentation'',
      str ''at line 2''] \<and>
   length (splitLines two_line_note) \<noteq> 1"
  by (simp add: format_def on_error_simps failed_multiline_def failureNote_def errorText_def
      two_line_note_def splitLines_def str_def nl_def)

text \<open>
  Claim C9, amended. For every record list: with \<open>onError = "error"\<close>, \<open>format\<close> throws at
  the first record in input order that is not successful, with the message
  \<open>(file parsing failed): <fileName> - <error>\<close>, and returns no text (when every record is
  successful it returns the joined blocks); with \<open>onError = "skip"\<close> the failed records are
  left out and the blocks of the others are joined with \<open>"\n" + separator + "\n"\<close>; with
  \<open>onError = "include"\<close> the note \<open>[<fileName>](parsing failed): <error>\<close> stands in place of
  the block of a failed record. A block is the optional title line, the optional URL line
  and the content; the note is one line when neither the file name nor the error has a line
  feed.
\<close>

theorem format_onError_policies:
  "(onErrorOf options = OnError \<longrightarrow>
      (\<forall>pre f rest. files = pre @ f # rest \<and> (\<forall>g\<in>set pre. success g) \<and> \<not> success f \<longrightarrow>
         format files options =
           Inl ([25991, 20214, 35299, 26512, 22833, 36133, 58, 32] @ fileName f @ str '' - '' @
                (case error f of None \<Rightarrow> str ''undefined'' | Some m \<Rightarrow> m))) \<and>
      ((\<forall>g\<in>set files. success g) \<longrightarrow>
         format files options =
           Inr (join ([10] @ separatorOf options @ [10]) (map (formatBlock options) files)))) \<and>
   (onErrorOf options = OnSkip \<longrightarrow>
      format files options =
        Inr (join ([10] @ separatorOf options @ [10])
               (map (formatBlock options) (filter success files)))) \<and>
   (onErrorOf options = OnInclude \<longrightarrow>
      format files options =
        Inr (join ([10] @ separatorOf options @ [10])
               (map (\<lambda>f. if success f then formatBlock options f
                         else [12304] @ fileName f @ [12305, 35299, 26512, 22833, 36133, 58, 32] @
                              (case error f of None \<Rightarrow> str ''undefined'' | Some m \<Rightarrow> m))
                    files))) \<and>
   (\<forall>f. formatBlock options f =
      (if includeTitleOf options
       then [12304] @ getTypeLabel (type f) @ [12305] @ fileName f @ [10] else []) @
      (if includeUrlOf options then str ''URL: '' @ url f @ [10] else []) @ content f) \<and>
   (\<forall>f m. error f = Some m \<and> 10 \<notin> set (fileName f) \<union> set m \<longrightarrow>
      10 \<notin> set ([12304] @ fileName f @ [12305, 35299, 26512, 22833, 36133, 58, 32] @ m))"
proof -
  have m: "\<And>f. failureMessage f =
      [25991, 20214, 35299, 26512, 22833, 36133, 58, 32] @ fileName f @ str '' - '' @
      (case error f of None \<Rightarrow> str ''undefined'' | Some m \<Rightarrow> m)"
    by (simp add: failureMessage_def errorText_def)
  have n: "failureNote =
      (\<lambda>f. [12304] @ fileName f @ [12305, 35299, 26512, 22833, 36133, 58, 32] @
           (case error f of None \<Rightarrow> str ''undefined'' | Some m \<Rightarrow> m))"
    by (rule ext) (simp add: failureNote_def errorText_def)
  have b: "\<And>f. formatBlock options f =
      (if includeTitleOf options
       then [12304] @ getTypeLabel (type f) @ [12305] @ fileName f @ [10] else []) @
      (if includeUrlOf options then str ''URL: '' @ url f @ [10] else []) @ content f"
    by (simp add: formatBlock_def nl_def)
  have s: "nl @ separatorOf options @ nl = [10] @ separatorOf options @ [10]"
    by (simp add: nl_def)
  have e: "onErrorOf options = OnError \<Longrightarrow>
      (\<forall>pre f rest. files = pre @ f # rest \<and> (\<forall>g\<in>set pre. success g) \<and> \<not> success f \<longrightarrow>
         format files options = Inl (failureMessage f))"
    by (auto simp add: format_def format_loop_error)
  have a: "(\<forall>g\<in>set files. success g) \<Longrightarrow>
      format files options =
        Inr (join (nl @ separatorOf options @ nl) (map (formatBlock options) files))"
    by (simp add: format_def format_loop_all_success)
  have k: "onErrorOf options = OnSkip \<Longrightarrow>
      format files options =
        Inr (join (nl @ separatorOf options @ nl)
               (map (formatBlock options) (filter success files)))"
    by (simp add: format_def format_loop_skip)
  have i: "onErrorOf options = OnInclude \<Longrightarrow>
      format files options =
        Inr (join (nl @ separatorOf options @ nl)
               (map (\<lambda>f. if success f then formatBlock options f else failureNote f) files))"
    by (simp add: format_def format_loop_include)
  have l: "\<forall>f m. error f = Some m \<and> 10 \<notin> set (fileName f) \<union> set m \<longrightarrow>
      10 \<notin> set ([12304] @ fileName f @ [12305, 35299, 26512, 22833, 36133, 58, 32] @ m)"
    by simp
  show ?thesis
    using e a k i b l unfolding m n s by blast
qed

theorem format_onError_policies_witness:
  "onErrorOf (on_error OnError) = OnError \<and>
   [doc_a, failed_b, doc_c] = [doc_a] @ failed_b # [doc_c] \<and> success doc_a \<and> \<not> success failed_b \<and>
   format [doc_a, failed_b, doc_c] (on_error OnError) =
     Inl ([25991, 20214, 35299, 26512, 22833, 36133, 58, 32] @ str ''b.zip - boom'') \<and>
   success doc_c \<and>
   format [doc_a, doc_c] (on_error OnError) =
     Inr ([12304, 25991, 26412, 12305] @ str ''a.txt'' @ [10] @ str ''alpha'' @ [10] @ str ''---'' @
          [10] @ [12304, 25991, 26412, 12305] @ str ''c.txt'' @ [10] @ str ''gamma'') \<and>
   onErrorOf None = OnSkip \<and>
   format [doc_a, failed_b, doc_c] None =
     Inr ([12304, 25991, 26412, 12305] @ str ''a.txt'' @ [10] @ str ''alpha'' @ [10] @ str ''---'' @
          [10] @ [12304, 25991, 26412, 12305] @ str ''c.txt'' @ [10] @ str ''gamma'') \<and>
   onErrorOf (on_error OnInclude) = OnInclude \<and>
   format [doc_a, failed_b, doc_c] (on_error OnInclude) =
     Inr ([12304, 25991, 26412, 12305] @ str ''a.txt'' @ [10] @ str ''alpha'' @ [10] @ str ''---'' @
          [10] @ [12304] @ str ''b.zip'' @ [12305, 35299, 26512, 22833, 36133, 58, 32] @
          str ''boom'' @ [10] @ str ''---'' @
          [10] @ [12304, 25991, 26412, 12305] @ str ''c.txt'' @ [10] @ str ''gamma'') \<and>
   error failed_b = Some (str ''boom'') \<and> 10 \<notin> set (fileName failed_b) \<union> set (str ''boom'') \<and>
   10 \<notin> set ([12304] @ str ''b.zip'' @ [12305, 35299, 26512, 22833, 36133, 58, 32] @ str ''boom'')"
proof -
  note e = format_onError_policies [of "on_error OnError" "[doc_a, failed_b, doc_c]"]
  note e2 = format_onError_policies [of "on_error OnError" "[doc_a, doc_c]"]
  note k = format_onError_policies [of None "[doc_a, failed_b, doc_c]"]
  note i = format_onError_policies [of "on_error OnInclude" "[doc_a, failed_b, doc_c]"]
  have d: "fileName doc_a = str ''a.txt''" "type doc_a = TText" "content doc_a = str ''alpha''"
    "fileName doc_c = str ''c.txt''" "type doc_c = TText" "content doc_c = str ''gamma''"
    "fileName failed_b = str ''b.zip''" "error failed_b = Some (str ''boom'')"
    by (simp_all add: doc_a_def doc_c_def failed_b_def)
  have t: "getTypeLabel TText = [25991, 26412]"
    by (simp add: getTypeLabel_def)
  have e': "format [doc_a, failed_b, doc_c] (on_error OnError) =
     Inl ([25991, 20214, 35299, 26512, 22833, 36133, 58, 32] @ str ''b.zip - boom'')"
    using e [THEN conjunct1, THEN mp, OF on_error_simps(1), THEN conjunct1, rule_format,
        of "[doc_a]" failed_b "[doc_c]"]
    by (simp add: docs_success d str_def)
  note be = e [THEN conjunct2, THEN conjunct2, THEN conjunct2, THEN conjunct1, rule_format]
  note bk = k [THEN conjunct2, THEN conjunct2, THEN conjunct2, THEN conjunct1, rule_format]
  note bi = i [THEN conjunct2, THEN conjunct2, THEN conjunct2, THEN conjunct1, rule_format]
  have e2': "format [doc_a, doc_c] (on_error OnError) =
     Inr ([12304, 25991, 26412, 12305] @ str ''a.txt'' @ [10] @ str ''alpha'' @ [10] @ str ''---'' @
          [10] @ [12304, 25991, 26412, 12305] @ str ''c.txt'' @ [10] @ str ''gamma'')"
    using e2 [THEN conjunct1, THEN mp, OF on_error_simps(1), THEN conjunct2]
    by (simp add: be docs_success on_error_simps on_error_title d t)
  have k': "format [doc_a, failed_b, doc_c] None =
     Inr ([12304, 25991, 26412, 12305] @ str ''a.txt'' @ [10] @ str ''alpha'' @ [10] @ str ''---'' @
          [10] @ [12304, 25991, 26412, 12305] @ str ''c.txt'' @ [10] @ str ''gamma'')"
    using k [THEN conjunct2, THEN conjunct1, THEN mp, OF on_error_simps(3)]
    by (simp add: bk docs_success on_error_simps on_error_title d t)
  have i': "format [doc_a, failed_b, doc_c] (on_error OnInclude) =
     Inr ([12304, 25991, 26412, 12305] @ str ''a.txt'' @ [10] @ str ''alpha'' @ [10] @ str ''---'' @
          [10] @ [12304] @ str ''b.zip'' @ [12305, 35299, 26512, 22833, 36133, 58, 32] @
          str ''boom'' @ [10] @ str ''---'' @
          [10] @ [12304, 25991, 26412, 12305] @ str ''c.txt'' @ [10] @ str ''gamma'')"
    using i [THEN conjunct2, THEN conjunct2, THEN conjunct1, THEN mp, OF on_error_simps(1)]
    by (simp add: bi docs_success on_error_simps on_error_title d t)
  have n: "10 \<notin> set (fileName failed_b) \<union> set (str ''boom'')"
    by (simp add: d str_def)
  from e' e2' k' i' n show ?thesis
    by (simp add: on_error_simps docs_success d str_def)
qed

text \<open>
  Claim C10. For every URL list and every concurrency \<open>c \<ge> 1\<close>, the records \<open>parseMany\<close>
  returns are the records of the URLs in input order: the record at index \<open>i\<close> is that of
  \<open>urls[i]\<close> and its \<open>url\<close> field is \<open>urls[i]\<close>.
\<close>

theorem parseMany_preserves_input_order:
  "1 \<le> concurrencyOf options \<longrightarrow>
     (\<exists>st. parseMany rt config urls options s0 = Some (Inr st) \<and>
        results st = map (parse rt config) urls \<and>
        map url (results st) = urls \<and>
        (\<forall>i<length urls. url (results st ! i) = urls ! i))"
proof
  assume "1 \<le> concurrencyOf options"
  then have c: "0 < concurrencyOf options" by simp
  let ?st = "(foldl (pushResult (onProgressOf options) (length urls)) (batch_init s0)
                   (map (parse rt config) urls))
                  \<lparr>chunks := chunksOf (concurrencyOf options) urls\<rparr>"
  have r: "results ?st = map (parse rt config) urls"
    by (simp add: results_foldl_pushResult batch_init_def)
  have m: "map url (map (parse rt config) urls) = urls"
    by (induction urls) (simp_all add: url_parse)
  have "parseMany rt config urls options s0 = Some (Inr ?st)"
    by (rule parseMany_result [OF c])
  then show "\<exists>st. parseMany rt config urls options s0 = Some (Inr st) \<and>
        results st = map (parse rt config) urls \<and>
        map url (results st) = urls \<and>
        (\<forall>i<length urls. url (results st ! i) = urls ! i)"
    using r m by (intro exI [of _ ?st]) (simp add: url_parse)
qed

theorem parseMany_preserves_input_order_witness:
  "1 \<le> concurrencyOf two_at_a_time \<and>
   (\<exists>st. parseMany offline no_ai five_urls two_at_a_time [] = Some (Inr st) \<and>
      map url (results st) = five_urls \<and> 3 < length five_urls \<and>
      url (results st ! 3) = str ''https://x.test/d.pdf'')"
proof -
  have l: "length five_urls = 5" "five_urls ! 3 = str ''https://x.test/d.pdf''"
    by (simp_all add: five_urls_def)
  from parseMany_preserves_input_order [of two_at_a_time offline no_ai five_urls "[]"]
  obtain st where st: "parseMany offline no_ai five_urls two_at_a_time [] = Some (Inr st)"
    "map url (results st) = five_urls" "\<forall>i<length five_urls. url (results st ! i) = five_urls ! i"
    by (auto simp add: two_at_a_time_simps)
  from st(3) have "url (results st ! 3) = five_urls ! 3"
    by (simp add: l)
  with st show ?thesis
    by (simp add: two_at_a_time_simps l)
qed

end
